theory Spec2Isabelle
  imports Main "HOL-Library.Char_ord" "HOL-Library.List_Lexorder"
begin

section \<open>Python strings\<close>

text \<open>
  A Python \<open>str\<close> is modelled as a \<open>string\<close> (a list of bytes, UTF-8). The string
  methods the two programs call are written out for the ASCII range; a byte outside it
  is left as it is by \<open>lower\<close> and \<open>upper\<close> and is never whitespace.
  Python also changes the case of letters outside ASCII and strips the Unicode spaces
  (U+00A0 and others); on inputs with such characters \<open>lower\<close>, \<open>strip\<close>, \<open>title\<close>
  and \<open>capitalize\<close> below differ from the methods of Python. Every statement below is
  made through these functions, not about single characters.
\<close>

definition is_upper :: "char \<Rightarrow> bool" where
  "is_upper c = (65 \<le> (of_char c :: nat) \<and> (of_char c :: nat) \<le> 90)"

definition is_lower :: "char \<Rightarrow> bool" where
  "is_lower c = (97 \<le> (of_char c :: nat) \<and> (of_char c :: nat) \<le> 122)"

definition lower_char :: "char \<Rightarrow> char" where
  "lower_char c = (if is_upper c then char_of ((of_char c :: nat) + 32) else c)"

definition upper_char :: "char \<Rightarrow> char" where
  "upper_char c = (if is_lower c then char_of ((of_char c :: nat) - 32) else c)"

text \<open>\<open>str.lower()\<close>.\<close>

definition lower :: "string \<Rightarrow> string" where
  "lower s = map lower_char s"

text \<open>
  The characters \<open>str.strip()\<close> removes: those for which \<open>str.isspace()\<close> holds, in
  the ASCII range tab, line feed, vertical tab, form feed, carriage return, the four
  separators 28 to 31, and the space.
\<close>

definition is_space :: "char \<Rightarrow> bool" where
  "is_space c = ((9 \<le> (of_char c :: nat) \<and> (of_char c :: nat) \<le> 13)
                 \<or> (28 \<le> (of_char c :: nat) \<and> (of_char c :: nat) \<le> 32))"

text \<open>\<open>str.strip()\<close>: whitespace is dropped at both ends.\<close>

definition strip :: "string \<Rightarrow> string" where
  "strip s = rev (dropWhile is_space (rev (dropWhile is_space s)))"

text \<open>\<open>s.replace('_', ' ')\<close>.\<close>

definition replace_underscore :: "string \<Rightarrow> string" where
  "replace_underscore s = map (\<lambda>c. if c = CHR ''_'' then CHR '' '' else c) s"

text \<open>\<open>str.capitalize()\<close>: the first character in upper case, the rest in lower case.\<close>

fun capitalize :: "string \<Rightarrow> string" where
  "capitalize [] = []"
| "capitalize (c # cs) = upper_char c # lower cs"

text \<open>
  \<open>str.title()\<close>: a cased character is put in upper case when the character before it
  is not cased (or there is none), and in lower case otherwise. The flag is whether the
  previous character was cased.
\<close>

fun title_from :: "bool \<Rightarrow> string \<Rightarrow> string" where
  "title_from prev [] = []"
| "title_from prev (c # cs) =
     (if is_upper c \<or> is_lower c
      then (if prev then lower_char c else upper_char c) # title_from True cs
      else c # title_from False cs)"

definition title :: "string \<Rightarrow> string" where
  "title s = title_from False s"

text \<open>\<open>str(i)\<close> for a non-negative integer: its decimal digits.\<close>

fun digits_acc :: "nat \<Rightarrow> nat \<Rightarrow> string \<Rightarrow> string" where
  "digits_acc 0 n acc = acc"
| "digits_acc (Suc fuel) n acc =
     (if n < 10 then char_of (48 + n) # acc
      else digits_acc fuel (n div 10) (char_of (48 + n mod 10) # acc))"

definition str_of_nat :: "nat \<Rightarrow> string" where
  "str_of_nat n = digits_acc (Suc n) n []"

section \<open>Python sets\<close>

text \<open>
  A Python \<open>set\<close> of strings is modelled as a list in which \<open>set.add\<close> appends an
  element only when it is absent. The order in which Python iterates over a set (and so
  the order of \<open>list(s)\<close>) depends on the hashes of the strings; it is a parameter of the
  model (\<open>set_order\<close> below).
\<close>

definition set_add :: "string \<Rightarrow> string list \<Rightarrow> string list" where
  "set_add x s = (if x \<in> set s then s else s @ [x])"

text \<open>\<open>s.update(xs)\<close>, and \<open>set(xs)\<close> as an update of the empty set.\<close>

definition set_update :: "string list \<Rightarrow> string list \<Rightarrow> string list" where
  "set_update xs s = fold set_add xs s"

definition set_of_list :: "string list \<Rightarrow> string list" where
  "set_of_list xs = set_update xs []"

section \<open>The search history of the page (\<open>app.py\<close>)\<close>

text \<open>
  \<open>st.session_state\<close> holds the keys \<open>theme\<close>, \<open>history\<close>, \<open>current_word\<close>, the text
  of the input widget (\<open>search_input\<close>) and the flag the input handler sets.
\<close>

record session_state =
  theme :: string
  history :: "string list"
  current_word :: "string option"
  search_input :: string
  search_triggered_by_enter :: bool

text \<open>The session as the script initialises it.\<close>

definition initial_session :: session_state where
  "initial_session =
     \<lparr>theme = ''light'', history = [], current_word = None,
      search_input = [], search_triggered_by_enter = False\<rparr>"

text \<open>
  \<open>add_to_history\<close>: a word that is not in the list is inserted at index 0 and the list
  is cut to its first five entries; a word that is in the list changes nothing.
\<close>

definition add_to_history :: "string \<Rightarrow> session_state \<Rightarrow> session_state" where
  "add_to_history w st =
     (if w \<notin> set (history st)
      then st\<lparr>history := take 5 (w # history st)\<rparr>
      else st)"

text \<open>
  \<open>handle_search_input\<close>: the widget's text is stripped; when something is left it
  becomes the current word and goes into the history as it was typed.
\<close>

definition handle_search_input :: "session_state \<Rightarrow> session_state" where
  "handle_search_input st =
     (let search_val = strip (search_input st) in
      if search_val \<noteq> []
      then add_to_history search_val
             (st\<lparr>current_word := Some search_val, search_triggered_by_enter := True\<rparr>)
      else st)"

text \<open>Typing a text into the widget and pressing Enter.\<close>

definition enter_text :: "string \<Rightarrow> session_state \<Rightarrow> session_state" where
  "enter_text raw st = handle_search_input (st\<lparr>search_input := raw\<rparr>)"

section \<open>The collaborators: WordNet, the environment and the HTTP API\<close>

text \<open>
  A WordNet lemma has a name and antonym lemmas (\<open>lemma.name()\<close>, \<open>lemma.antonyms()\<close>);
  a synset has a part-of-speech code, a gloss, example sentences and lemmas.
\<close>

datatype wn_lemma = Lemma (lemma_name: string) (lemma_antonyms: "wn_lemma list")

record synset =
  synset_pos :: string
  synset_definition :: string
  synset_examples :: "string list"
  synset_lemmas :: "wn_lemma list"

text \<open>
  One entry of the \<open>meanings\<close> array of the API's JSON answer. A key that may be missing
  is an option; an entry of \<open>definitions\<close> is an object whose key \<open>definition\<close> may be
  missing.
\<close>

record meaning =
  partOfSpeech :: "string option"
  meaning_definitions :: "string option list option"
  meaning_synonyms :: "string list option"
  meaning_antonyms :: "string list option"
  meaning_examples :: "string list option"

text \<open>
  What \<open>requests.get\<close> followed by \<open>response.json()\<close> can give: the request fails
  (\<open>requests.RequestException\<close>, which includes the timeout), or there is a response with
  a status code and a body that is JSON (an object with or without the key \<open>meanings\<close>)
  or is not.
\<close>

datatype json_body = NotJson | Json "meaning list option"

datatype http_outcome = RequestFailed | Response nat json_body

text \<open>
  Everything outside the two programs: \<open>wordnet.synsets\<close>, the environment variable
  \<open>WORDS_API_KEY\<close> (\<open>os.getenv\<close> gives \<open>None\<close> when it is not set), \<open>requests.get\<close> as
  a function of the URL and the key sent in the header, and the iteration order of sets.
  The one-hour \<open>st.cache_data\<close> around both lookup functions returns what the function
  returned before; with the collaborators fixed, as here, it is not visible.
\<close>

record world =
  wordnet_synsets :: "string \<Rightarrow> synset list"
  WORDS_API_KEY :: "string option"
  requests_get :: "string \<Rightarrow> string \<Rightarrow> http_outcome"
  set_order :: "string list \<Rightarrow> string list"

section \<open>The lookup of the page (\<open>app.py\<close>)\<close>

text \<open>
  An entry of \<open>data['definitions']\<close>: the dictionary with the keys \<open>text\<close> and \<open>pos\<close>
  (\<open>text\<close> is a keyword here, so the fields carry a prefix).
\<close>

record defn =
  defn_text :: string
  defn_pos :: string

text \<open>
  The dictionary both lookup functions build. The key \<open>source\<close> exists only in the
  dictionary of the API fallback, hence the option.
\<close>

record word_data =
  word :: string
  definitions :: "defn list"
  synonyms :: "string list"
  antonyms :: "string list"
  examples :: "string list"
  pos_tags :: "string list"
  source :: "string option"

text \<open>The exceptions the \<open>try\<close> block of \<open>get_word_from_api\<close> can raise and its handler catches.\<close>

datatype py_exception = RequestException | ValueError | KeyError

text \<open>The body of the loop over \<open>api_data['meanings']\<close>.\<close>

definition add_meaning :: "meaning \<Rightarrow> word_data \<Rightarrow> word_data" where
  "add_meaning m data =
     (let p = (case partOfSpeech m of None \<Rightarrow> ''unknown'' | Some s \<Rightarrow> s);
          d1 = data\<lparr>pos_tags := pos_tags data @ [p]\<rparr>;
          d2 = (case meaning_definitions m of
                  None \<Rightarrow> d1
                | Some ds \<Rightarrow>
                    d1\<lparr>definitions := definitions d1 @
                         map (\<lambda>dn. \<lparr>defn_text = (case dn of None \<Rightarrow> [] | Some t \<Rightarrow> t),
                                    defn_pos = p\<rparr>) ds\<rparr>);
          d3 = (case meaning_synonyms m of
                  None \<Rightarrow> d2
                | Some ss \<Rightarrow> d2\<lparr>synonyms := set_update ss (synonyms d2)\<rparr>);
          d4 = (case meaning_antonyms m of
                  None \<Rightarrow> d3
                | Some as \<Rightarrow> d3\<lparr>antonyms := set_update as (antonyms d3)\<rparr>)
      in (case meaning_examples m of
            None \<Rightarrow> d4
          | Some es \<Rightarrow> d4\<lparr>examples := examples d4 @ take 2 es\<rparr>))"

definition api_url :: "string \<Rightarrow> string" where
  "api_url w = ''https://api.wordsapi.com/words/'' @ w"

text \<open>
  The \<open>try\<close> block of \<open>get_word_from_api\<close>: \<open>Inl\<close> is an exception raised in it,
  \<open>Inr\<close> the value it returns. A key that is not set or is the empty string is falsy.
\<close>

definition api_try :: "world \<Rightarrow> string \<Rightarrow> py_exception + word_data option" where
  "api_try W w =
     (case WORDS_API_KEY W of
        None \<Rightarrow> Inr None
      | Some api_key \<Rightarrow>
          if api_key = [] then Inr None
          else
            (case requests_get W (api_url w) api_key of
               RequestFailed \<Rightarrow> Inl RequestException
             | Response status_code body \<Rightarrow>
                 if status_code \<noteq> 200 then Inr None
                 else
                   (case body of
                      NotJson \<Rightarrow> Inl ValueError
                    | Json api_meanings \<Rightarrow>
                        (let data0 = \<lparr>word = w, definitions = [], synonyms = [],
                                      antonyms = [], examples = [], pos_tags = [],
                                      source = Some ''WordsAPI''\<rparr>;
                             data1 = (case api_meanings of
                                        None \<Rightarrow> data0
                                      | Some ms \<Rightarrow> fold add_meaning ms data0);
                             data2 = data1\<lparr>examples :=
                                       take 3 (set_order W (set_of_list (examples data1)))\<rparr>
                         in Inr (if definitions data2 \<noteq> [] then Some data2 else None)))))"

text \<open>\<open>get_word_from_api\<close>: the handler turns each of the three exceptions into \<open>None\<close>.\<close>

definition get_word_from_api :: "world \<Rightarrow> string \<Rightarrow> word_data option" where
  "get_word_from_api W w =
     (case api_try W w of
        Inl exn \<Rightarrow> None
      | Inr r \<Rightarrow> r)"

text \<open>The body of the loop over \<open>synset.lemmas()\<close> in \<open>get_word_data\<close>.\<close>

definition process_lemma :: "string \<Rightarrow> wn_lemma \<Rightarrow> word_data \<Rightarrow> word_data" where
  "process_lemma w lem data =
     (let nm = replace_underscore (lemma_name lem);
          d1 = (if nm \<noteq> w then data\<lparr>synonyms := set_add nm (synonyms data)\<rparr> else data)
      in d1\<lparr>antonyms :=
              fold (\<lambda>antonym. set_add (replace_underscore (lemma_name antonym)))
                   (lemma_antonyms lem) (antonyms d1)\<rparr>)"

text \<open>The body of the loop over the synsets.\<close>

definition process_synset :: "string \<Rightarrow> synset \<Rightarrow> word_data \<Rightarrow> word_data" where
  "process_synset w ss data =
     (let p = synset_pos ss;
          d1 = data\<lparr>definitions := definitions data @ 
                  [\<lparr>defn_text = synset_definition ss, defn_pos = p\<rparr>]\<rparr>;
          d2 = d1\<lparr>pos_tags := set_add p (pos_tags d1)\<rparr>;
          d3 = (if synset_examples ss \<noteq> []
                then d2\<lparr>examples := set_update (synset_examples ss) (examples d2)\<rparr>
                else d2)
      in fold (process_lemma w) (synset_lemmas ss) d3)"

text \<open>The first line of both lookups: \<open>word.lower().strip()\<close>.\<close>

definition normalize :: "string \<Rightarrow> string" where
  "normalize raw = strip (lower raw)"

text \<open>
  \<open>get_word_data\<close>. \<open>None\<close> is returned for an empty word and when neither WordNet nor
  the fallback has anything.
\<close>

definition get_word_data :: "world \<Rightarrow> string \<Rightarrow> word_data option" where
  "get_word_data W raw =
     (let w = normalize raw in
      if w = [] then None
      else
        (let synsets = wordnet_synsets W w in
         if synsets = [] then get_word_from_api W w
         else
           (let data0 = \<lparr>word = w, definitions = [], synonyms = [], antonyms = [],
                         examples = [], pos_tags = [], source = None\<rparr>;
                data1 = fold (process_synset w) synsets data0
            in Some (data1\<lparr>pos_tags := set_order W (pos_tags data1),
                           examples := take 3 (set_order W (examples data1))\<rparr>))))"

text \<open>The test behind the source badge of the page: \<open>word_data.get('source') == 'WordsAPI'\<close>.\<close>

definition from_api :: "word_data \<Rightarrow> bool" where
  "from_api data = (source data = Some ''WordsAPI'')"

text \<open>
  What the page looks up when it displays: the current word, stripped, when there is one
  and something is left of it.
\<close>

definition page_lookup :: "world \<Rightarrow> session_state \<Rightarrow> word_data option" where
  "page_lookup W st =
     (case current_word st of
        None \<Rightarrow> None
      | Some cw \<Rightarrow>
          (let word_input = strip cw in
           if word_input \<noteq> [] then get_word_data W word_input else None))"

section \<open>The formatter of the page (\<open>app.py\<close>)\<close>

text \<open>\<open>pos_to_name\<close>: the table of the five WordNet codes, with \<open>Unknown\<close> as default.\<close>

definition pos_to_name :: "string \<Rightarrow> string" where
  "pos_to_name pos_code =
     (if pos_code = ''n'' then ''Noun''
      else if pos_code = ''v'' then ''Verb''
      else if pos_code = ''a'' then ''Adjective''
      else if pos_code = ''r'' then ''Adverb''
      else if pos_code = ''s'' then ''Adjective Satellite''
      else ''Unknown'')"

text \<open>\<open>sep.join(xs)\<close>.\<close>

fun join :: "string \<Rightarrow> string list \<Rightarrow> string" where
  "join sep [] = []"
| "join sep [x] = x"
| "join sep (x # y # ys) = x @ sep @ join sep (y # ys)"

text \<open>The line feed, the apostrophe, and the four pictographs of the headings in UTF-8.\<close>

definition nl :: string where
  "nl = [CHR 0x0A]"

definition apostrophe :: string where
  "apostrophe = [CHR 0x27]"

definition open_book :: string where
  "open_book = [CHR 0xF0, CHR 0x9F, CHR 0x93, CHR 0x96]"

definition link_symbol :: string where
  "link_symbol = [CHR 0xF0, CHR 0x9F, CHR 0x94, CHR 0x97]"

definition cross_mark :: string where
  "cross_mark = [CHR 0xE2, CHR 0x9D, CHR 0x8C]"

definition light_bulb :: string where
  "light_bulb = [CHR 0xF0, CHR 0x9F, CHR 0x92, CHR 0xA1]"

text \<open>One numbered definition of \<open>format_output\<close>: \<open>f"{i}. {defn['text']} _{pos_to_name(defn['pos'])}_\n"\<close>.\<close>

definition definition_line :: "nat \<times> defn \<Rightarrow> string" where
  "definition_line p =
     str_of_nat (fst p) @ ''. '' @ defn_text (snd p) @ '' _''
       @ pos_to_name (defn_pos (snd p)) @ ''_'' @ nl"

definition definition_lines :: "defn list \<Rightarrow> string" where
  "definition_lines ds = concat (map definition_line (enumerate 1 ds))"

text \<open>\<open>format_output\<close>: the text of the download.\<close>

definition format_output :: "word_data \<Rightarrow> string" where
  "format_output data =
     ''**'' @ title (word data) @ ''**''
     @ nl @ nl @ ''**'' @ open_book @ '' Definitions:**'' @ nl
     @ definition_lines (definitions data)
     @ (if synonyms data \<noteq> []
        then nl @ ''**'' @ link_symbol @ '' Synonyms:**'' @ nl
             @ join '', '' (sort (synonyms data)) @ nl
        else [])
     @ (if antonyms data \<noteq> []
        then nl @ ''**'' @ cross_mark @ '' Antonyms:**'' @ nl
             @ join '', '' (sort (antonyms data)) @ nl
        else [])
     @ (if examples data \<noteq> []
        then nl @ ''**'' @ light_bulb @ '' Examples:**'' @ nl
             @ concat (map (\<lambda>ex. ''- _'' @ ex @ ''_'' @ nl) (examples data))
        else [])"

section \<open>The console program (\<open>dictionary.py\<close>)\<close>

text \<open>
  The loop over the lemmas of a synset: the lemma's name as WordNet has it is compared
  with the word, and the name with spaces for underscores is added.
\<close>

definition cli_lemma :: "string \<Rightarrow> wn_lemma \<Rightarrow> string list \<Rightarrow> string list" where
  "cli_lemma w lem syns =
     (if lemma_name lem \<noteq> w then set_add (replace_underscore (lemma_name lem)) syns
      else syns)"

text \<open>The loop over the synsets; the state is the pair of \<open>definitions\<close> and \<open>synonyms\<close>.\<close>

definition cli_synset :: "string \<Rightarrow> synset \<Rightarrow> string list \<times> string list
    \<Rightarrow> string list \<times> string list" where
  "cli_synset w ss acc =
     (fst acc @ [synset_definition ss], fold (cli_lemma w) (synset_lemmas ss) (snd acc))"

definition cli_collect :: "string \<Rightarrow> synset list \<Rightarrow> string list \<times> string list" where
  "cli_collect w synsets = fold (cli_synset w) synsets ([], [])"

definition rule_line :: string where
  "rule_line = replicate 60 CHR ''=''"

text \<open>
  \<open>get_definitions_and_synonyms\<close>: what it prints, one string for each call of
  \<open>print\<close> (without the line feed \<open>print\<close> appends), and what it returns.
\<close>

definition get_definitions_and_synonyms :: "world \<Rightarrow> string \<Rightarrow> string list \<times> bool" where
  "get_definitions_and_synonyms W raw =
     (let w = normalize raw;
          synsets = wordnet_synsets W w
      in if synsets = []
         then ([''Error: No definitions found for '' @ apostrophe @ w @ apostrophe], False)
         else
           (let ds = fst (cli_collect w synsets);
                syns = snd (cli_collect w synsets)
            in ([nl @ rule_line, ''Word: '' @ capitalize w, rule_line,
                 nl @ ''Definitions ('' @ str_of_nat (length ds) @ ''):'']
                @ map (\<lambda>p. ''  '' @ str_of_nat (fst p) @ ''. '' @ snd p) (enumerate 1 ds)
                @ (if syns \<noteq> []
                   then [nl @ ''Synonyms:''] @ map (\<lambda>syn. ''  - '' @ syn) (sort syns)
                   else [nl @ ''No synonyms found.''])
                @ [[]],
                True)))"

text \<open>
  What the terminal delivers to one call of \<open>input\<close>: a line, or Ctrl-C. When the list
  of events is used up the input is at its end, and \<open>input\<close> raises \<open>EOFError\<close>.
\<close>

datatype event = Line string | KeyboardInterrupt

definition prompt :: string where
  "prompt = ''Enter a word: ''"

definition banner :: "string list" where
  "banner = [rule_line, ''NLTK WordNet Dictionary CLI'', rule_line,
             ''Type '' @ apostrophe @ ''quit'' @ apostrophe @ '' or '' @ apostrophe
               @ ''exit'' @ apostrophe @ '' to exit the program.'' @ nl]"

text \<open>
  The \<open>while True\<close> loop of \<open>main\<close>. The first argument bounds the number of iterations
  (\<open>None\<close>: the loop is still running when the bound is reached); the result is the exit
  code of \<open>sys.exit\<close> and everything written to the terminal. \<open>SystemExit\<close> is not an
  \<open>Exception\<close>, so the last handler does not catch it; it does catch \<open>EOFError\<close>, after
  which the loop goes on.
\<close>

fun main_loop :: "nat \<Rightarrow> world \<Rightarrow> event list \<Rightarrow> string list \<Rightarrow> (nat \<times> string list) option" where
  "main_loop 0 W evs out = None"
| "main_loop (Suc n) W [] out =
     main_loop n W [] (out @ [prompt, ''An error occurred: EOF when reading a line'' @ nl])"
| "main_loop (Suc n) W (KeyboardInterrupt # evs) out =
     Some (0, out @ [prompt, nl @ nl @ ''Goodbye!''])"
| "main_loop (Suc n) W (Line s # evs) out =
     (let w = strip s in
      if lower w \<in> set [''quit'', ''exit'', ''q'']
      then Some (0, out @ [prompt, ''Goodbye!''])
      else if w = [] then main_loop n W evs (out @ [prompt, ''Please enter a word.'' @ nl])
      else main_loop n W evs (out @ [prompt] @ fst (get_definitions_and_synonyms W w)))"

definition main :: "nat \<Rightarrow> world \<Rightarrow> event list \<Rightarrow> (nat \<times> string list) option" where
  "main n W evs = main_loop n W evs banner"

section \<open>Abbreviations used in the statements\<close>

text \<open>All lemmas of a list of synsets, in the order the loops visit them.\<close>

definition lemmas_of :: "synset list \<Rightarrow> wn_lemma list" where
  "lemmas_of synsets = concat (map synset_lemmas synsets)"

text \<open>Recording a sequence of words, the first of the list first.\<close>

definition record_all :: "string list \<Rightarrow> session_state \<Rightarrow> session_state" where
  "record_all ws st = fold add_to_history ws st"

section \<open>Example data\<close>

text \<open>
  A small WordNet: two senses of \<open>happy\<close>, one of \<open>ice_cream\<close>, nothing else.
\<close>

definition example_synsets :: "string \<Rightarrow> synset list" where
  "example_synsets w =
     (if w = ''happy'' then
        [\<lparr>synset_pos = ''a'',
          synset_definition = ''enjoying or showing or marked by joy or pleasure'',
          synset_examples = [''a happy smile'', ''spent many happy days on the beach'',
                             ''a happy marriage''],
          synset_lemmas = [Lemma ''happy'' [Lemma ''unhappy'' []]]\<rparr>,
         \<lparr>synset_pos = ''s'',
          synset_definition = ''marked by good fortune'',
          synset_examples = [''a felicitous life'', ''a happy outcome''],
          synset_lemmas = [Lemma ''felicitous'' [], Lemma ''happy'' []]\<rparr>,
         \<lparr>synset_pos = ''s'',
          synset_definition = ''eagerly disposed to act or to be of service'',
          synset_examples = [''glad to help''],
          synset_lemmas = [Lemma ''glad'' [], Lemma ''happy'' []]\<rparr>,
         \<lparr>synset_pos = ''s'',
          synset_definition = ''well expressed and to the point'',
          synset_examples = [''a happy turn of phrase''],
          synset_lemmas = [Lemma ''happy'' [], Lemma ''well_chosen'' []]\<rparr>]
      else if w = ''ice_cream'' then
        [\<lparr>synset_pos = ''n'',
          synset_definition = ''frozen dessert containing cream and sugar and flavoring'',
          synset_examples = [],
          synset_lemmas = [Lemma ''ice_cream'' [], Lemma ''icecream'' []]\<rparr>]
      else [])"

text \<open>No API key, no network; sets are iterated in insertion order.\<close>

definition offline_world :: world where
  "offline_world =
     \<lparr>wordnet_synsets = example_synsets, WORDS_API_KEY = None,
      requests_get = (\<lambda>url api_key. RequestFailed), set_order = (\<lambda>xs. xs)\<rparr>"

text \<open>
  An answer of the API with two meanings whose parts of speech are spelled out, and
  which lists the word among its own synonyms.
\<close>

definition example_meanings :: "meaning list" where
  "example_meanings =
     [\<lparr>partOfSpeech = Some ''noun'',
       meaning_definitions = Some [Some ''a feeling of great happiness'', None],
       meaning_synonyms = Some [''joy'', ''glee'', ''joy''],
       meaning_antonyms = Some [''gloom''],
       meaning_examples = Some [''first'', ''second'', ''third'']\<rparr>,
      \<lparr>partOfSpeech = Some ''verb'',
       meaning_definitions = Some [Some ''to make glad''],
       meaning_synonyms = Some [''gladden'', ''glee''],
       meaning_antonyms = None,
       meaning_examples = Some [''second'', ''fourth'', ''fifth'']\<rparr>]"

text \<open>A key is set and the API answers every request with status 200 and that body.\<close>

definition online_world :: world where
  "online_world =
     \<lparr>wordnet_synsets = example_synsets, WORDS_API_KEY = Some ''secret'',
      requests_get = (\<lambda>url api_key. Response 200 (Json (Some example_meanings))),
      set_order = (\<lambda>xs. xs)\<rparr>"

section \<open>Facts about the set model\<close>

lemma set_set_add: "set (set_add x s) = insert x (set s)"
  by (auto simp: set_add_def)

lemma distinct_set_add: "distinct s \<Longrightarrow> distinct (set_add x s)"
  by (simp add: set_add_def)

lemma set_fold_set_add: "set (fold (\<lambda>a. set_add (f a)) xs s) = f ` set xs \<union> set s"
  by (induction xs arbitrary: s) (auto simp: set_set_add)

lemma distinct_fold_set_add: "distinct s \<Longrightarrow> distinct (fold (\<lambda>a. set_add (f a)) xs s)"
  by (induction xs arbitrary: s) (simp_all add: distinct_set_add)

lemma distinct_set_update: "distinct s \<Longrightarrow> distinct (set_update xs s)"
  unfolding set_update_def by (induction xs arbitrary: s) (simp_all add: distinct_set_add)

lemma set_set_update: "set (set_update xs s) = set xs \<union> set s"
  unfolding set_update_def by (induction xs arbitrary: s) (auto simp: set_set_add)

section \<open>The search history\<close>

lemma history_add_to_history:
  "history (add_to_history w st) =
     (if w \<in> set (history st) then history st else take 5 (w # history st))"
  by (simp add: add_to_history_def)

lemma add_to_history_invariant:
  assumes "distinct (history st)" "length (history st) \<le> 5"
  shows "distinct (history (add_to_history w st)) \<and> length (history (add_to_history w st)) \<le> 5"
proof (cases "w \<in> set (history st)")
  case True
  with assms show ?thesis by (simp add: history_add_to_history)
next
  case False
  have "distinct (w # history st)" using False assms by simp
  then have "distinct (take 5 (w # history st))" by (rule distinct_take)
  with False show ?thesis by (simp add: history_add_to_history)
qed

lemma record_all_invariant:
  "distinct (history st) \<Longrightarrow> length (history st) \<le> 5 \<Longrightarrow>
   distinct (history (record_all ws st)) \<and> length (history (record_all ws st)) \<le> 5"
proof (induction ws arbitrary: st)
  case Nil
  then show ?case by (simp add: record_all_def)
next
  case (Cons w ws)
  from add_to_history_invariant [OF Cons.prems, of w]
  have "distinct (history (add_to_history w st))" "length (history (add_to_history w st)) \<le> 5"
    by simp_all
  from Cons.IH [OF this] show ?case by (simp add: record_all_def)
qed

text \<open>
  C6, as the claim states it, fails: a word that is recorded again is not moved. After
  \<open>a\<close>, \<open>b\<close>, \<open>a\<close> the history is \<open>[b, a]\<close>, so the word recorded last is not at the
  front.
\<close>

theorem history_front_counterexample:
  "history (record_all [''a'', ''b'', ''a''] initial_session) = [''b'', ''a'']
   \<and> hd (history (record_all [''a'', ''b'', ''a''] initial_session)) \<noteq> ''a''"
  by (simp add: record_all_def add_to_history_def initial_session_def)

text \<open>
  C6, amended: after every sequence of recordings, starting from the empty history of a
  new session, the history has at most five entries and no entry twice. Recording a
  word that is in the history changes nothing (the word stays where it is, once).
  Recording a word that is not in it puts the word at the front of the first four of
  the old entries, so the last of five old entries is dropped.
\<close>

theorem history_bounded_distinct_newest_first:
  "length (history (record_all ws initial_session)) \<le> 5
   \<and> distinct (history (record_all ws initial_session))
   \<and> (w \<in> set (history st) \<longrightarrow> add_to_history w st = st)
   \<and> (w \<notin> set (history st) \<longrightarrow>
        history (add_to_history w st) = w # take 4 (history st))"
proof -
  have "distinct (history initial_session)" "length (history initial_session) \<le> 5"
    by (simp_all add: initial_session_def)
  from record_all_invariant [OF this, of ws]
  show ?thesis by (simp add: add_to_history_def)
qed

theorem history_bounded_distinct_newest_first_witness:
  "history (add_to_history ''f'' (record_all [''a'', ''b'', ''c'', ''d'', ''e''] initial_session))
     = [''f'', ''e'', ''d'', ''c'', ''b'']
   \<and> add_to_history ''c'' (record_all [''a'', ''b'', ''c'', ''d'', ''e''] initial_session)
     = record_all [''a'', ''b'', ''c'', ''d'', ''e''] initial_session"
proof -
  let ?st = "record_all [''a'', ''b'', ''c'', ''d'', ''e''] initial_session"
  have h: "history ?st = [''e'', ''d'', ''c'', ''b'', ''a'']"
    by (simp add: record_all_def add_to_history_def initial_session_def)
  have new: "''f'' \<notin> set (history ?st)" and old: "''c'' \<in> set (history ?st)"
    by (simp_all add: h)
  from history_bounded_distinct_newest_first [of "[]" "''f''" ?st] new
  have "history (add_to_history ''f'' ?st) = ''f'' # take 4 (history ?st)" by blast
  moreover from history_bounded_distinct_newest_first [of "[]" "''c''" ?st] old
  have "add_to_history ''c'' ?st = ?st" by blast
  ultimately show ?thesis by (simp add: h)
qed

section \<open>The aggregation over the local entries\<close>

lemma process_lemma_fields:
  "word (process_lemma w l d) = word d"
  "definitions (process_lemma w l d) = definitions d"
  "examples (process_lemma w l d) = examples d"
  "pos_tags (process_lemma w l d) = pos_tags d"
  "source (process_lemma w l d) = source d"
  by (simp_all add: process_lemma_def Let_def)

lemma synonyms_process_lemma:
  "synonyms (process_lemma w l d) =
     (if replace_underscore (lemma_name l) \<noteq> w
      then set_add (replace_underscore (lemma_name l)) (synonyms d) else synonyms d)"
  by (simp add: process_lemma_def Let_def)

lemma antonyms_process_lemma:
  "antonyms (process_lemma w l d) =
     fold (\<lambda>a. set_add (replace_underscore (lemma_name a))) (lemma_antonyms l) (antonyms d)"
  by (simp add: process_lemma_def Let_def)

lemma fold_process_lemma_fields:
  "word (fold (process_lemma w) ls d) = word d"
  "definitions (fold (process_lemma w) ls d) = definitions d"
  "examples (fold (process_lemma w) ls d) = examples d"
  "pos_tags (fold (process_lemma w) ls d) = pos_tags d"
  "source (fold (process_lemma w) ls d) = source d"
  by (induction ls arbitrary: d) (simp_all add: process_lemma_fields)

lemma synonyms_fold_process_lemma:
  "synonyms (fold (process_lemma w) ls d) =
     fold (\<lambda>l s. if replace_underscore (lemma_name l) \<noteq> w
                 then set_add (replace_underscore (lemma_name l)) s else s) ls (synonyms d)"
  by (induction ls arbitrary: d) (simp_all add: synonyms_process_lemma)

lemma distinct_antonyms_fold_process_lemma:
  "distinct (antonyms d) \<Longrightarrow> distinct (antonyms (fold (process_lemma w) ls d))"
  by (induction ls arbitrary: d) (simp_all add: antonyms_process_lemma distinct_fold_set_add)

lemma process_synset_fields:
  "word (process_synset w ss d) = word d"
  "definitions (process_synset w ss d) =
     definitions d @ [\<lparr>defn_text = synset_definition ss, defn_pos = synset_pos ss\<rparr>]"
  "source (process_synset w ss d) = source d"
  by (simp_all add: process_synset_def Let_def fold_process_lemma_fields)

lemma synonyms_process_synset:
  "synonyms (process_synset w ss d) =
     fold (\<lambda>l s. if replace_underscore (lemma_name l) \<noteq> w
                 then set_add (replace_underscore (lemma_name l)) s else s)
       (synset_lemmas ss) (synonyms d)"
  by (simp add: process_synset_def Let_def synonyms_fold_process_lemma)

lemma distinct_antonyms_process_synset:
  "distinct (antonyms d) \<Longrightarrow> distinct (antonyms (process_synset w ss d))"
  by (simp add: process_synset_def Let_def distinct_antonyms_fold_process_lemma)

lemma fold_process_synset_fields:
  "word (fold (process_synset w) synsets d) = word d"
  "source (fold (process_synset w) synsets d) = source d"
  "definitions (fold (process_synset w) synsets d) =
     definitions d @
     map (\<lambda>ss. \<lparr>defn_text = synset_definition ss, defn_pos = synset_pos ss\<rparr>) synsets"
  by (induction synsets arbitrary: d) (simp_all add: process_synset_fields)

lemma synonyms_fold_process_synset:
  "synonyms (fold (process_synset w) synsets d) =
     fold (\<lambda>l s. if replace_underscore (lemma_name l) \<noteq> w
                 then set_add (replace_underscore (lemma_name l)) s else s)
       (lemmas_of synsets) (synonyms d)"
  by (induction synsets arbitrary: d) (simp_all add: synonyms_process_synset lemmas_of_def)

lemma distinct_antonyms_fold_process_synset:
  "distinct (antonyms d) \<Longrightarrow> distinct (antonyms (fold (process_synset w) synsets d))"
  by (induction synsets arbitrary: d) (simp_all add: distinct_antonyms_process_synset)

lemma set_fold_page_filter:
  "set (fold (\<lambda>l s. if replace_underscore (lemma_name l) \<noteq> w
                 then set_add (replace_underscore (lemma_name l)) s else s) ls s0) =
   set s0 \<union> ((\<lambda>l. replace_underscore (lemma_name l)) ` set ls - {w})"
  by (induction ls arbitrary: s0) (auto simp: set_set_add)

lemma distinct_fold_page_filter:
  "distinct s0 \<Longrightarrow>
   distinct (fold (\<lambda>l s. if replace_underscore (lemma_name l) \<noteq> w
                 then set_add (replace_underscore (lemma_name l)) s else s) ls s0)"
  by (induction ls arbitrary: s0) (simp_all add: distinct_set_add)

text \<open>The record of the local path, field by field.\<close>

lemma get_word_data_local:
  assumes "normalize raw \<noteq> []" "wordnet_synsets W (normalize raw) \<noteq> []"
  shows "\<exists>d. get_word_data W raw = Some d
           \<and> word d = normalize raw
           \<and> source d = None
           \<and> definitions d =
               map (\<lambda>ss. \<lparr>defn_text = synset_definition ss, defn_pos = synset_pos ss\<rparr>)
                 (wordnet_synsets W (normalize raw))
           \<and> synonyms d =
               fold (\<lambda>l s. if replace_underscore (lemma_name l) \<noteq> normalize raw
                           then set_add (replace_underscore (lemma_name l)) s else s)
                 (lemmas_of (wordnet_synsets W (normalize raw))) []
           \<and> distinct (antonyms d)
           \<and> length (examples d) \<le> 3"
  using assms
  by (simp add: get_word_data_def Let_def fold_process_synset_fields
      synonyms_fold_process_synset distinct_antonyms_fold_process_synset)

section \<open>The aggregation over the answer of the API\<close>

lemma add_meaning_fields:
  "source (add_meaning m d) = source d"
  "word (add_meaning m d) = word d"
  by (simp_all add: add_meaning_def Let_def split: option.splits)

lemma distinct_add_meaning:
  "distinct (synonyms d) \<Longrightarrow> distinct (synonyms (add_meaning m d))"
  "distinct (antonyms d) \<Longrightarrow> distinct (antonyms (add_meaning m d))"
  by (simp_all add: add_meaning_def Let_def distinct_set_update split: option.splits)

lemma pos_add_meaning:
  "defn_pos ` set (definitions d) \<subseteq> set (pos_tags d) \<Longrightarrow>
   defn_pos ` set (definitions (add_meaning m d)) \<subseteq> set (pos_tags (add_meaning m d))"
  by (auto simp: add_meaning_def Let_def split: option.splits)

lemma fold_add_meaning_invariant:
  "distinct (synonyms d) \<Longrightarrow> distinct (antonyms d) \<Longrightarrow>
   defn_pos ` set (definitions d) \<subseteq> set (pos_tags d) \<Longrightarrow>
   distinct (synonyms (fold add_meaning ms d))
   \<and> distinct (antonyms (fold add_meaning ms d))
   \<and> defn_pos ` set (definitions (fold add_meaning ms d)) \<subseteq> set (pos_tags (fold add_meaning ms d))
   \<and> source (fold add_meaning ms d) = source d"
proof (induction ms arbitrary: d)
  case Nil
  then show ?case by simp
next
  case (Cons m ms)
  from Cons.IH [OF distinct_add_meaning(1) [OF Cons.prems(1)]
      distinct_add_meaning(2) [OF Cons.prems(2)] pos_add_meaning [OF Cons.prems(3)]]
  show ?case by (simp add: add_meaning_fields)
qed

lemma api_try_record:
  assumes "api_try W w = Inr (Some d)"
  shows "length (examples d) \<le> 3 \<and> distinct (synonyms d) \<and> distinct (antonyms d)
         \<and> defn_pos ` set (definitions d) \<subseteq> set (pos_tags d)
         \<and> source d = Some ''WordsAPI'' \<and> definitions d \<noteq> []"
proof -
  let ?d0 = "\<lparr>word = w, definitions = [], synonyms = [], antonyms = [], examples = [],
              pos_tags = [], source = Some ''WordsAPI''\<rparr>"
  have inv0: "distinct (synonyms ?d0)" "distinct (antonyms ?d0)"
    "defn_pos ` set (definitions ?d0) \<subseteq> set (pos_tags ?d0)"
    by simp_all
  from assms obtain ms where
    d: "d = (fold add_meaning ms ?d0)
          \<lparr>examples := take 3 (set_order W (set_of_list
              (examples (fold add_meaning ms ?d0))))\<rparr>"
    and ne: "definitions d \<noteq> []"
    by (auto simp: api_try_def Let_def
        split: option.splits if_splits http_outcome.splits json_body.splits)
  from fold_add_meaning_invariant [OF inv0, of ms] d ne
  show ?thesis by simp
qed

lemma get_word_from_api_record:
  assumes "get_word_from_api W w = Some d"
  shows "length (examples d) \<le> 3 \<and> distinct (synonyms d) \<and> distinct (antonyms d)
         \<and> defn_pos ` set (definitions d) \<subseteq> set (pos_tags d)
         \<and> source d = Some ''WordsAPI'' \<and> definitions d \<noteq> []"
proof -
  from assms have "api_try W w = Inr (Some d)"
    by (simp add: get_word_from_api_def split: sum.splits)
  then show ?thesis by (rule api_try_record)
qed

lemma api_without_key:
  assumes "WORDS_API_KEY W = None \<or> WORDS_API_KEY W = Some []"
  shows "api_try W w = Inr None"
  using assms by (auto simp: api_try_def)

section \<open>The lookup of the page: the claims\<close>

text \<open>
  C1: when the normalized word is not empty and WordNet has at least one synset for it,
  \<open>get_word_data\<close> returns a record that comes from the local path and has at least
  one definition. The dictionary of the local path has no key \<open>source\<close>; the key exists
  only with the value \<open>WordsAPI\<close> on the fallback path, and the page tells the two apart
  by the test \<open>from_api\<close>, which is false here.
\<close>

theorem local_entries_give_local_record:
  assumes "normalize raw \<noteq> []" "wordnet_synsets W (normalize raw) \<noteq> []"
  shows "\<exists>d. get_word_data W raw = Some d \<and> source d = None \<and> \<not> from_api d
             \<and> definitions d \<noteq> []"
proof -
  from get_word_data_local [OF assms] obtain d where
    d: "get_word_data W raw = Some d" "source d = None"
       "definitions d =
          map (\<lambda>ss. \<lparr>defn_text = synset_definition ss, defn_pos = synset_pos ss\<rparr>)
            (wordnet_synsets W (normalize raw))"
    by blast
  from d(3) assms(2) have "definitions d \<noteq> []" by simp
  with d(1,2) show ?thesis by (simp add: from_api_def)
qed

theorem local_entries_give_local_record_witness:
  "normalize '' Happy '' = ''happy''
   \<and> wordnet_synsets offline_world ''happy'' \<noteq> []
   \<and> (case get_word_data offline_world '' Happy '' of
         None \<Rightarrow> False
       | Some d \<Rightarrow> source d = None \<and> \<not> from_api d \<and> definitions d \<noteq> [])"
proof -
  have n: "normalize '' Happy '' = ''happy''" by code_simp
  have h1: "normalize '' Happy '' \<noteq> []" by (simp add: n)
  have h2: "wordnet_synsets offline_world (normalize '' Happy '') \<noteq> []"
    by (simp add: n offline_world_def example_synsets_def)
  from local_entries_give_local_record [OF h1 h2] obtain d where
    "get_word_data offline_world '' Happy '' = Some d" "source d = None" "\<not> from_api d"
    "definitions d \<noteq> []"
    by blast
  with n h2 show ?thesis by simp
qed

text \<open>
  C3, as the claim states it, fails: \<open>get_word_data\<close> has one value for every failure.
  A blank input and a word without local or remote data both give \<open>None\<close>.
\<close>

theorem empty_and_missing_word_counterexample:
  "get_word_data offline_world ''   '' = None
   \<and> get_word_data offline_world ''zzzqqqnonword'' = None"
  by code_simp

text \<open>
  C3, amended: for every input that is empty after lowercasing and stripping,
  \<open>get_word_data\<close> returns \<open>None\<close>, whatever WordNet and the API hold; it is the value
  it also returns when nothing is found.
\<close>

theorem empty_word_gives_none:
  assumes "normalize raw = []"
  shows "get_word_data W raw = None"
  using assms by (simp add: get_word_data_def)

theorem empty_word_gives_none_witness:
  "normalize ''   '' = [] \<and> get_word_data online_world ''   '' = None"
proof -
  have h: "normalize ''   '' = []" by code_simp
  from empty_word_gives_none [OF h, of online_world] h show ?thesis by simp
qed

text \<open>
  C5: when WordNet has no synset for the normalized word and no API key is configured
  (the variable is not set, or is empty), \<open>get_word_data\<close> returns \<open>None\<close>; the
  fallback returns \<open>None\<close> normally, no exception is raised in its \<open>try\<close> block.
\<close>

theorem no_entries_no_key_gives_none:
  assumes "wordnet_synsets W (normalize raw) = []"
    and "WORDS_API_KEY W = None \<or> WORDS_API_KEY W = Some []"
  shows "get_word_data W raw = None
         \<and> api_try W (normalize raw) = Inr None
         \<and> get_word_from_api W (normalize raw) = None"
proof -
  from api_without_key [OF assms(2)] have a: "api_try W (normalize raw) = Inr None" .
  then have g: "get_word_from_api W (normalize raw) = None"
    by (simp add: get_word_from_api_def)
  with assms(1) have "get_word_data W raw = None"
    by (simp add: get_word_data_def Let_def)
  with a g show ?thesis by simp
qed

theorem no_entries_no_key_gives_none_witness:
  "wordnet_synsets offline_world (normalize ''zzzqqqnonword'') = []
   \<and> WORDS_API_KEY offline_world = None
   \<and> get_word_data offline_world ''zzzqqqnonword'' = None
   \<and> api_try offline_world (normalize ''zzzqqqnonword'') = Inr None"
proof -
  have n: "normalize ''zzzqqqnonword'' = ''zzzqqqnonword''" by code_simp
  have h1: "wordnet_synsets offline_world (normalize ''zzzqqqnonword'') = []"
    by (simp add: n offline_world_def example_synsets_def)
  have k: "WORDS_API_KEY offline_world = None" by (simp add: offline_world_def)
  then have h2: "WORDS_API_KEY offline_world = None \<or> WORDS_API_KEY offline_world = Some []"
    by simp
  from no_entries_no_key_gives_none [OF h1 h2] h1 k show ?thesis by simp
qed

text \<open>
  C7: every record \<open>get_word_data\<close> returns, from the local path or from the
  fallback, has at most three examples, and its synonyms and antonyms have no duplicates.
\<close>

theorem record_examples_bounded_sets_distinct:
  assumes "get_word_data W raw = Some d"
  shows "length (examples d) \<le> 3 \<and> distinct (synonyms d) \<and> distinct (antonyms d)"
proof (cases "normalize raw \<noteq> [] \<and> wordnet_synsets W (normalize raw) \<noteq> []")
  case True
  then have ne: "normalize raw \<noteq> []" and ss: "wordnet_synsets W (normalize raw) \<noteq> []"
    by simp_all
  from get_word_data_local [OF ne ss] assms
  have syn: "synonyms d =
               fold (\<lambda>l s. if replace_underscore (lemma_name l) \<noteq> normalize raw
                           then set_add (replace_underscore (lemma_name l)) s else s)
                 (lemmas_of (wordnet_synsets W (normalize raw))) []"
    and rest: "distinct (antonyms d)" "length (examples d) \<le> 3"
    by auto
  have "distinct (synonyms d)" unfolding syn by (rule distinct_fold_page_filter) simp
  with rest show ?thesis by simp
next
  case False
  with assms have "get_word_from_api W (normalize raw) = Some d"
    by (auto simp: get_word_data_def Let_def split: if_splits)
  from get_word_from_api_record [OF this] show ?thesis by simp
qed

theorem record_examples_bounded_sets_distinct_witness:
  "(case get_word_data offline_world ''happy'' of
      None \<Rightarrow> False
    | Some d \<Rightarrow> length (examples d) \<le> 3 \<and> distinct (synonyms d) \<and> distinct (antonyms d))
   \<and> (case get_word_data online_world ''glee'' of
      None \<Rightarrow> False
    | Some d \<Rightarrow> from_api d \<and> length (examples d) \<le> 3 \<and> distinct (synonyms d)
                \<and> distinct (antonyms d))"
proof -
  obtain d1 where d1: "get_word_data offline_world ''happy'' = Some d1"
    by (cases "get_word_data offline_world ''happy''") (simp_all, code_simp)
  obtain d2 where d2: "get_word_data online_world ''glee'' = Some d2"
    by (cases "get_word_data online_world ''glee''") (simp_all, code_simp)
  have api: "from_api d2"
  proof -
    have "(case get_word_data online_world ''glee'' of None \<Rightarrow> False | Some d \<Rightarrow> from_api d)"
      by code_simp
    with d2 show ?thesis by simp
  qed
  from record_examples_bounded_sets_distinct [OF d1]
    record_examples_bounded_sets_distinct [OF d2] d1 d2 api
  show ?thesis by simp
qed

section \<open>Facts about the string functions\<close>

text \<open>Stripping twice is stripping once.\<close>

lemma dropWhile_prefix_fixed:
  "dropWhile P (rev (dropWhile P (rev (dropWhile P s)))) = rev (dropWhile P (rev (dropWhile P s)))"
proof -
  let ?xs = "dropWhile P s"
  let ?ys = "dropWhile P (rev ?xs)"
  show ?thesis
  proof (cases "?ys = []")
    case True
    show ?thesis by (simp only: True rev.simps dropWhile.simps)
  next
    case False
    have "rev (rev ?ys @ rev (takeWhile P (rev ?xs))) = rev ?xs" by simp
    then have xs: "?xs = rev ?ys @ rev (takeWhile P (rev ?xs))"
      by (simp only: rev_is_rev_conv)
    from False have ne: "rev ?ys \<noteq> []" by simp
    with xs have "hd ?xs = hd (rev ?ys)" by (metis hd_append2)
    moreover from xs ne have "?xs \<noteq> []" by (metis append_is_Nil_conv)
    then have "\<not> P (hd ?xs)" by (rule hd_dropWhile)
    ultimately have "\<not> P (hd (rev ?ys))" by simp
    with ne show ?thesis by (cases "rev ?ys") simp_all
  qed
qed

lemma strip_strip: "strip (strip s) = strip s"
proof -
  have "strip (strip s) =
          rev (dropWhile is_space (rev (rev (dropWhile is_space (rev (dropWhile is_space s))))))"
    unfolding strip_def by (simp only: dropWhile_prefix_fixed)
  then show ?thesis by (simp add: strip_def)
qed


lemma replace_underscore_id: "CHR ''_'' \<notin> set s \<Longrightarrow> replace_underscore s = s"
  unfolding replace_underscore_def by (induction s) auto

lemma replace_underscore_has_space:
  assumes "CHR ''_'' \<in> set s"
  shows "CHR '' '' \<in> set (replace_underscore s)"
proof -
  let ?f = "\<lambda>c. if c = CHR ''_'' then CHR '' '' else c"
  from assms have "?f CHR ''_'' \<in> ?f ` set s" by (rule imageI)
  then have "CHR '' '' \<in> ?f ` set s" by simp
  then show ?thesis unfolding replace_underscore_def by (simp only: set_map)
qed

lemma replaced_name_differs:
  assumes "CHR '' '' \<notin> set w" "nm \<noteq> w"
  shows "replace_underscore nm \<noteq> w"
proof
  assume eq: "replace_underscore nm = w"
  with assms(1) have "CHR '' '' \<notin> set (replace_underscore nm)" by simp
  with replace_underscore_has_space [of nm] have "CHR ''_'' \<notin> set nm" by blast
  then have "replace_underscore nm = nm" by (rule replace_underscore_id)
  with eq assms(2) show False by simp
qed

section \<open>Synonyms in the page and in the console\<close>

lemma fold_cli_synset:
  "fst (fold (cli_synset w) synsets acc) = fst acc @ map synset_definition synsets"
  "snd (fold (cli_synset w) synsets acc) = fold (cli_lemma w) (lemmas_of synsets) (snd acc)"
  by (induction synsets arbitrary: acc) (simp_all add: cli_synset_def lemmas_of_def)

lemma cli_collect_eq:
  "fst (cli_collect w synsets) = map synset_definition synsets"
  "snd (cli_collect w synsets) = fold (cli_lemma w) (lemmas_of synsets) []"
  by (simp_all add: cli_collect_def fold_cli_synset)

lemma set_fold_cli_lemma:
  "set (fold (cli_lemma w) ls s0) =
     set s0 \<union> (\<lambda>l. replace_underscore (lemma_name l)) ` set (filter (\<lambda>l. lemma_name l \<noteq> w) ls)"
  by (induction ls arbitrary: s0) (auto simp: cli_lemma_def set_set_add)

lemma cli_lemma_eq_page_filter:
  assumes "CHR ''_'' \<notin> set w" "CHR '' '' \<notin> set w"
  shows "cli_lemma w l s =
           (if replace_underscore (lemma_name l) \<noteq> w
            then set_add (replace_underscore (lemma_name l)) s else s)"
proof (cases "lemma_name l = w")
  case True
  with assms(1) have "replace_underscore (lemma_name l) = w"
    by (simp add: replace_underscore_id)
  with True show ?thesis by (simp add: cli_lemma_def)
next
  case False
  from replaced_name_differs [OF assms(2) False] False
  show ?thesis by (simp add: cli_lemma_def)
qed

lemma fold_cli_lemma_eq_page_filter:
  assumes "CHR ''_'' \<notin> set w" "CHR '' '' \<notin> set w"
  shows "fold (cli_lemma w) ls s0 =
           fold (\<lambda>l s. if replace_underscore (lemma_name l) \<noteq> w
                       then set_add (replace_underscore (lemma_name l)) s else s) ls s0"
proof -
  have "cli_lemma w = (\<lambda>l s. if replace_underscore (lemma_name l) \<noteq> w
                       then set_add (replace_underscore (lemma_name l)) s else s)"
    by (intro ext) (rule cli_lemma_eq_page_filter [OF assms])
  then show ?thesis by simp
qed

section \<open>What the console prints for a word\<close>

lemma map_enumerate_map:
  "map g (enumerate n (map f xs)) = map (\<lambda>p. g (fst p, f (snd p))) (enumerate n xs)"
  by (induction xs arbitrary: n) simp_all

lemma cli_synonyms_eq:
  "snd (cli_collect w synsets) =
     fold (\<lambda>l s. if lemma_name l \<noteq> w then set_add (replace_underscore (lemma_name l)) s else s)
       (lemmas_of synsets) []"
proof -
  have "cli_lemma w =
          (\<lambda>l s. if lemma_name l \<noteq> w then set_add (replace_underscore (lemma_name l)) s else s)"
    by (intro ext) (simp add: cli_lemma_def)
  then show ?thesis by (simp add: cli_collect_eq(2))
qed

lemma console_output_missing:
  assumes "wordnet_synsets W (normalize raw) = []"
  shows "get_definitions_and_synonyms W raw =
           ([''Error: No definitions found for '' @ apostrophe @ normalize raw @ apostrophe],
            False)"
  using assms by (simp add: get_definitions_and_synonyms_def Let_def)

lemma console_output_found:
  assumes "wordnet_synsets W (normalize raw) \<noteq> []"
  shows "get_definitions_and_synonyms W raw =
           ([nl @ rule_line, ''Word: '' @ capitalize (normalize raw), rule_line,
             nl @ ''Definitions ('' @ str_of_nat (length (wordnet_synsets W (normalize raw)))
               @ ''):'']
            @ map (\<lambda>p. ''  '' @ str_of_nat (fst p) @ ''. '' @ synset_definition (snd p))
                (enumerate 1 (wordnet_synsets W (normalize raw)))
            @ (if snd (cli_collect (normalize raw) (wordnet_synsets W (normalize raw))) \<noteq> []
               then [nl @ ''Synonyms:'']
                    @ map (\<lambda>syn. ''  - '' @ syn)
                        (sort (snd (cli_collect (normalize raw)
                                      (wordnet_synsets W (normalize raw)))))
               else [nl @ ''No synonyms found.''])
            @ [[]],
            True)"
proof -
  have "map (\<lambda>p. ''  '' @ str_of_nat (fst p) @ ''. '' @ snd p)
          (enumerate 1 (map synset_definition (wordnet_synsets W (normalize raw))))
        = map (\<lambda>p. ''  '' @ str_of_nat (fst p) @ ''. '' @ synset_definition (snd p))
            (enumerate 1 (wordnet_synsets W (normalize raw)))"
    by (simp add: map_enumerate_map)
  with assms show ?thesis
    by (simp add: get_definitions_and_synonyms_def Let_def cli_collect_eq(1))
qed

section \<open>The word among its own synonyms\<close>

text \<open>
  The local path of the page leaves the word out of the synonyms, for every word and
  every WordNet: the synonyms are exactly the names of the lemmas of the matched synsets
  with spaces for underscores, the word itself left out. In the console the synonyms are
  the names, with spaces for underscores, of the lemmas whose name as WordNet has it
  differs from the word; they do not contain the word when the word has no space.
\<close>

lemma local_synonyms_exclude_word:
  assumes "normalize raw \<noteq> []" "wordnet_synsets W (normalize raw) \<noteq> []"
  shows "\<exists>d. get_word_data W raw = Some d
           \<and> normalize raw \<notin> set (synonyms d)
           \<and> set (synonyms d) =
               (\<lambda>l. replace_underscore (lemma_name l))
                 ` set (lemmas_of (wordnet_synsets W (normalize raw))) - {normalize raw}
           \<and> set (snd (cli_collect (normalize raw) (wordnet_synsets W (normalize raw)))) =
               (\<lambda>l. replace_underscore (lemma_name l))
                 ` set (filter (\<lambda>l. lemma_name l \<noteq> normalize raw)
                         (lemmas_of (wordnet_synsets W (normalize raw))))
           \<and> (CHR '' '' \<notin> set (normalize raw) \<longrightarrow>
                normalize raw
                  \<notin> set (snd (cli_collect (normalize raw) (wordnet_synsets W (normalize raw)))))"
proof -
  let ?w = "normalize raw"
  let ?ls = "lemmas_of (wordnet_synsets W ?w)"
  from get_word_data_local [OF assms] obtain d where
    d: "get_word_data W raw = Some d"
    and syn: "synonyms d =
               fold (\<lambda>l s. if replace_underscore (lemma_name l) \<noteq> ?w
                           then set_add (replace_underscore (lemma_name l)) s else s) ?ls []"
    by blast
  have page: "set (synonyms d) = (\<lambda>l. replace_underscore (lemma_name l)) ` set ?ls - {?w}"
    unfolding syn by (simp add: set_fold_page_filter)
  have cli: "set (snd (cli_collect ?w (wordnet_synsets W ?w))) =
               (\<lambda>l. replace_underscore (lemma_name l))
                 ` set (filter (\<lambda>l. lemma_name l \<noteq> ?w) ?ls)"
    by (simp add: cli_collect_eq set_fold_cli_lemma)
  have "?w \<notin> set (snd (cli_collect ?w (wordnet_synsets W ?w)))" if sp: "CHR '' '' \<notin> set ?w"
  proof
    assume "?w \<in> set (snd (cli_collect ?w (wordnet_synsets W ?w)))"
    with cli obtain l where "lemma_name l \<noteq> ?w" "replace_underscore (lemma_name l) = ?w"
      by auto
    with replaced_name_differs [OF sp, of "lemma_name l"] show False by simp
  qed
  with d page cli show ?thesis by blast
qed

lemma local_synonyms_exclude_word_example:
  "normalize ''Ice_Cream'' = ''ice_cream''
   \<and> wordnet_synsets offline_world ''ice_cream'' \<noteq> []
   \<and> (case get_word_data offline_world ''Ice_Cream'' of
         None \<Rightarrow> False
       | Some d \<Rightarrow> ''ice_cream'' \<notin> set (synonyms d))
   \<and> ''ice_cream'' \<notin> set (snd (cli_collect ''ice_cream'' (example_synsets ''ice_cream'')))"
proof -
  have n: "normalize ''Ice_Cream'' = ''ice_cream''" by code_simp
  have h1: "normalize ''Ice_Cream'' \<noteq> []" by (simp add: n)
  have w: "wordnet_synsets offline_world ''ice_cream'' = example_synsets ''ice_cream''"
    by (simp add: offline_world_def)
  have h2: "wordnet_synsets offline_world (normalize ''Ice_Cream'') \<noteq> []"
    by (simp add: n offline_world_def example_synsets_def)
  have sp: "CHR '' '' \<notin> set (normalize ''Ice_Cream'')" by (simp add: n)
  from local_synonyms_exclude_word [OF h1 h2] sp obtain d where
    "get_word_data offline_world ''Ice_Cream'' = Some d"
    "normalize ''Ice_Cream'' \<notin> set (synonyms d)"
    "normalize ''Ice_Cream''
       \<notin> set (snd (cli_collect (normalize ''Ice_Cream'')
                  (wordnet_synsets offline_world (normalize ''Ice_Cream''))))"
    by blast
  with n h2 w show ?thesis by simp
qed

text \<open>
  The console compares the lemma's name before the underscores are replaced. On a word
  with a space and a synset list holding the lemma with the underscore, the word would
  be added.
\<close>

lemma cli_spaced_word_example:
  "snd (cli_collect ''ice cream''
         [\<lparr>synset_pos = ''n'', synset_definition = ''frozen dessert'',
           synset_examples = [], synset_lemmas = [Lemma ''ice_cream'' []]\<rparr>])
     = [''ice cream'']"
  by code_simp

text \<open>
  The fallback path has no such filter: the synonyms of its record are all the strings
  of the \<open>synonyms\<close> arrays of the answer.
\<close>

lemma synonyms_add_meaning:
  "set (synonyms (add_meaning m d)) =
     set (synonyms d) \<union> (case meaning_synonyms m of None \<Rightarrow> {} | Some ss \<Rightarrow> set ss)"
  by (auto simp: add_meaning_def Let_def set_set_update split: option.splits)

lemma synonyms_fold_add_meaning:
  "set (synonyms (fold add_meaning ms d)) =
     set (synonyms d)
     \<union> (\<Union>m \<in> set ms. case meaning_synonyms m of None \<Rightarrow> {} | Some ss \<Rightarrow> set ss)"
  by (induction ms arbitrary: d) (auto simp: synonyms_add_meaning)

lemma remote_synonyms_unfiltered:
  assumes "WORDS_API_KEY W = Some api_key" "api_key \<noteq> []"
    and "requests_get W (api_url w) api_key = Response 200 (Json (Some ms))"
    and "get_word_from_api W w = Some d"
  shows "set (synonyms d) =
           (\<Union>m \<in> set ms. case meaning_synonyms m of None \<Rightarrow> {} | Some ss \<Rightarrow> set ss)"
proof -
  let ?d0 = "\<lparr>word = w, definitions = [], synonyms = [], antonyms = [], examples = [],
              pos_tags = [], source = Some ''WordsAPI''\<rparr>"
  from assms have "d = (fold add_meaning ms ?d0)
          \<lparr>examples := take 3 (set_order W (set_of_list
              (examples (fold add_meaning ms ?d0))))\<rparr>"
    by (auto simp: get_word_from_api_def api_try_def Let_def split: if_splits)
  then have "synonyms d = synonyms (fold add_meaning ms ?d0)" by simp
  then show ?thesis by (simp add: synonyms_fold_add_meaning)
qed

text \<open>
  C2 says that the synonyms of every record a lookup returns leave out the normalized
  input word. The page does not keep to it on the fallback path: for \<open>glee\<close>, which
  WordNet does not have and for which the API lists \<open>glee\<close> among the synonyms,
  \<open>get_word_data\<close> returns a record whose synonyms contain \<open>glee\<close>.
\<close>

theorem remote_record_lists_word_as_synonym:
  "normalize ''glee'' = ''glee''
   \<and> wordnet_synsets online_world ''glee'' = []
   \<and> map_option synonyms (get_word_data online_world ''glee'') = Some [''joy'', ''glee'', ''gladden'']"
  by code_simp

section \<open>The history and the case of the input\<close>

lemma get_word_data_normalize:
  "normalize a = normalize b \<Longrightarrow> get_word_data W a = get_word_data W b"
  by (simp add: get_word_data_def)

lemma enter_text_nonempty:
  assumes "strip raw \<noteq> []"
  shows "current_word (enter_text raw st) = Some (strip raw)"
    and "history (enter_text raw st) =
           (if strip raw \<in> set (history st) then history st
            else take 5 (strip raw # history st))"
  using assms
  by (simp_all add: enter_text_def handle_search_input_def Let_def add_to_history_def)

lemma page_lookup_enter_text:
  assumes "strip raw \<noteq> []"
  shows "page_lookup W (enter_text raw st) = get_word_data W (strip raw)"
  using assms by (simp add: page_lookup_def enter_text_nonempty(1) strip_strip Let_def)

text \<open>
  C10: the history compares the stripped text as it was typed. Two inputs that differ
  after stripping but agree after lowercasing, entered one after the other in a new
  session, give two history entries, although the page looks up the same word for both.
\<close>

theorem history_keeps_typed_case:
  assumes "strip a \<noteq> []" "strip b \<noteq> []" "strip a \<noteq> strip b"
    and "lower (strip a) = lower (strip b)"
  shows "history (enter_text b (enter_text a initial_session)) = [strip b, strip a]
         \<and> page_lookup W (enter_text a initial_session)
             = page_lookup W (enter_text b (enter_text a initial_session))"
proof -
  have h1: "history (enter_text a initial_session) = [strip a]"
    using assms(1) by (simp add: enter_text_nonempty(2) initial_session_def)
  have h2: "history (enter_text b (enter_text a initial_session)) = [strip b, strip a]"
    using assms(2,3) by (simp add: enter_text_nonempty(2) h1)
  have "normalize (strip a) = normalize (strip b)"
    using assms(4) by (simp add: normalize_def)
  then have "get_word_data W (strip a) = get_word_data W (strip b)"
    by (rule get_word_data_normalize)
  then have "page_lookup W (enter_text a initial_session)
             = page_lookup W (enter_text b (enter_text a initial_session))"
    by (simp add: page_lookup_enter_text [OF assms(1)] page_lookup_enter_text [OF assms(2)])
  with h2 show ?thesis by simp
qed

theorem history_keeps_typed_case_witness:
  "history (enter_text ''cat'' (enter_text ''Cat'' initial_session)) = [''cat'', ''Cat'']
   \<and> lower ''Cat'' = lower ''cat''
   \<and> page_lookup offline_world (enter_text ''Cat'' initial_session)
       = page_lookup offline_world (enter_text ''cat'' (enter_text ''Cat'' initial_session))"
proof -
  have sa: "strip ''Cat'' = ''Cat''" and sb: "strip ''cat'' = ''cat''" by code_simp+
  have lw: "lower ''Cat'' = lower ''cat''" by code_simp
  have a: "strip ''Cat'' \<noteq> []" and b: "strip ''cat'' \<noteq> []"
    and ab: "strip ''Cat'' \<noteq> strip ''cat''"
    and l: "lower (strip ''Cat'') = lower (strip ''cat'')"
    by (simp_all add: sa sb lw)
  from history_keeps_typed_case [OF a b ab l, of offline_world] lw
  show ?thesis by (simp add: sa sb)
qed

section \<open>The formatter on records of the fallback\<close>

lemma pos_to_name_unknown:
  "p \<notin> set [''n'', ''v'', ''a'', ''r'', ''s''] \<Longrightarrow> pos_to_name p = ''Unknown''"
  by (simp add: pos_to_name_def)

lemma snd_in_set_enumerate: "p \<in> set (enumerate n xs) \<Longrightarrow> snd p \<in> set xs"
  by (cases p) (auto simp: in_set_enumerate_eq)

text \<open>
  C9: in a record of the fallback the \<open>pos\<close> of every definition is one of the
  \<open>partOfSpeech\<close> strings collected in \<open>pos_tags\<close>. When none of them is one of the
  five codes \<open>n\<close>, \<open>v\<close>, \<open>a\<close>, \<open>r\<close>, \<open>s\<close>, \<open>pos_to_name\<close> gives \<open>Unknown\<close> for every
  definition, and the text \<open>format_output\<close> writes is the title, the heading, one
  numbered line for each definition with its text and the label \<open>_Unknown_\<close>, and
  then the sections of the synonyms, antonyms and examples.
\<close>

theorem remote_full_word_pos_formats_unknown:
  assumes "get_word_from_api W w = Some d"
    and "\<forall>p \<in> set (pos_tags d). p \<notin> set [''n'', ''v'', ''a'', ''r'', ''s'']"
  shows "(\<forall>dn \<in> set (definitions d). pos_to_name (defn_pos dn) = ''Unknown'')
         \<and> definition_lines (definitions d) =
             concat (map (\<lambda>p. str_of_nat (fst p) @ ''. '' @ defn_text (snd p)
                                @ '' _'' @ ''Unknown'' @ ''_'' @ nl)
                      (enumerate 1 (definitions d)))
         \<and> format_output d =
             ''**'' @ title (word d) @ ''**''
             @ nl @ nl @ ''**'' @ open_book @ '' Definitions:**'' @ nl
             @ concat (map (\<lambda>p. str_of_nat (fst p) @ ''. '' @ defn_text (snd p)
                                @ '' _'' @ ''Unknown'' @ ''_'' @ nl)
                      (enumerate 1 (definitions d)))
             @ (if synonyms d \<noteq> []
                then nl @ ''**'' @ link_symbol @ '' Synonyms:**'' @ nl
                     @ join '', '' (sort (synonyms d)) @ nl
                else [])
             @ (if antonyms d \<noteq> []
                then nl @ ''**'' @ cross_mark @ '' Antonyms:**'' @ nl
                     @ join '', '' (sort (antonyms d)) @ nl
                else [])
             @ (if examples d \<noteq> []
                then nl @ ''**'' @ light_bulb @ '' Examples:**'' @ nl
                     @ concat (map (\<lambda>ex. ''- _'' @ ex @ ''_'' @ nl) (examples d))
                else [])"
proof -
  from get_word_from_api_record [OF assms(1)]
  have sub: "defn_pos ` set (definitions d) \<subseteq> set (pos_tags d)" by simp
  have unk: "pos_to_name (defn_pos dn) = ''Unknown''" if "dn \<in> set (definitions d)" for dn
  proof -
    from that sub have "defn_pos dn \<in> set (pos_tags d)" by blast
    with assms(2) have "defn_pos dn \<notin> set [''n'', ''v'', ''a'', ''r'', ''s'']" by blast
    then show ?thesis by (rule pos_to_name_unknown)
  qed
  have "map definition_line (enumerate 1 (definitions d)) =
          map (\<lambda>p. str_of_nat (fst p) @ ''. '' @ defn_text (snd p)
                     @ '' _'' @ ''Unknown'' @ ''_'' @ nl)
            (enumerate 1 (definitions d))"
  proof (rule map_cong [OF refl])
    fix p assume "p \<in> set (enumerate 1 (definitions d))"
    then have "snd p \<in> set (definitions d)" by (rule snd_in_set_enumerate)
    then have "pos_to_name (defn_pos (snd p)) = ''Unknown''" by (rule unk)
    then show "definition_line p = str_of_nat (fst p) @ ''. '' @ defn_text (snd p)
                     @ '' _'' @ ''Unknown'' @ ''_'' @ nl"
      by (simp add: definition_line_def)
  qed
  then have lines: "definition_lines (definitions d) =
             concat (map (\<lambda>p. str_of_nat (fst p) @ ''. '' @ defn_text (snd p)
                                @ '' _'' @ ''Unknown'' @ ''_'' @ nl)
                      (enumerate 1 (definitions d)))"
    by (simp only: definition_lines_def)
  have out: "format_output d =
             ''**'' @ title (word d) @ ''**''
             @ nl @ nl @ ''**'' @ open_book @ '' Definitions:**'' @ nl
             @ concat (map (\<lambda>p. str_of_nat (fst p) @ ''. '' @ defn_text (snd p)
                                @ '' _'' @ ''Unknown'' @ ''_'' @ nl)
                      (enumerate 1 (definitions d)))
             @ (if synonyms d \<noteq> []
                then nl @ ''**'' @ link_symbol @ '' Synonyms:**'' @ nl
                     @ join '', '' (sort (synonyms d)) @ nl
                else [])
             @ (if antonyms d \<noteq> []
                then nl @ ''**'' @ cross_mark @ '' Antonyms:**'' @ nl
                     @ join '', '' (sort (antonyms d)) @ nl
                else [])
             @ (if examples d \<noteq> []
                then nl @ ''**'' @ light_bulb @ '' Examples:**'' @ nl
                     @ concat (map (\<lambda>ex. ''- _'' @ ex @ ''_'' @ nl) (examples d))
                else [])"
    by (simp only: format_output_def lines)
  from unk lines out show ?thesis by blast
qed

theorem remote_full_word_pos_formats_unknown_witness:
  "(case get_word_from_api online_world ''glee'' of
      None \<Rightarrow> False
    | Some d \<Rightarrow> pos_tags d = [''noun'', ''verb''] \<and> length (definitions d) = 3
        \<and> list_all (\<lambda>dn. pos_to_name (defn_pos dn) = ''Unknown'') (definitions d)
        \<and> format_output d =
            ''**Glee**'' @ nl @ nl @ ''**'' @ open_book @ '' Definitions:**'' @ nl
            @ ''1. a feeling of great happiness _Unknown_'' @ nl
            @ ''2.  _Unknown_'' @ nl
            @ ''3. to make glad _Unknown_'' @ nl
            @ nl @ ''**'' @ link_symbol @ '' Synonyms:**'' @ nl
            @ ''gladden, glee, joy'' @ nl
            @ nl @ ''**'' @ cross_mark @ '' Antonyms:**'' @ nl
            @ ''gloom'' @ nl
            @ nl @ ''**'' @ light_bulb @ '' Examples:**'' @ nl
            @ ''- _first_'' @ nl @ ''- _second_'' @ nl @ ''- _fourth_'' @ nl)"
proof -
  let ?D = "\<lparr>word = ''glee'',
             definitions = [\<lparr>defn_text = ''a feeling of great happiness'', defn_pos = ''noun''\<rparr>,
                            \<lparr>defn_text = [], defn_pos = ''noun''\<rparr>,
                            \<lparr>defn_text = ''to make glad'', defn_pos = ''verb''\<rparr>],
             synonyms = [''joy'', ''glee'', ''gladden''], antonyms = [''gloom''],
             examples = [''first'', ''second'', ''fourth''],
             pos_tags = [''noun'', ''verb''], source = Some ''WordsAPI''\<rparr>"
  have d: "get_word_from_api online_world ''glee'' = Some ?D" by code_simp
  have hyp: "\<forall>p \<in> set (pos_tags ?D). p \<notin> set [''n'', ''v'', ''a'', ''r'', ''s'']"
    by simp
  note inst = remote_full_word_pos_formats_unknown [OF d hyp]
  from inst have "\<forall>dn \<in> set (definitions ?D). pos_to_name (defn_pos dn) = ''Unknown''"
    by (rule conjunct1)
  then have all: "list_all (\<lambda>dn. pos_to_name (defn_pos dn) = ''Unknown'') (definitions ?D)"
    by (simp only: list_all_iff)
  from inst have "format_output ?D =
             ''**'' @ title (word ?D) @ ''**''
             @ nl @ nl @ ''**'' @ open_book @ '' Definitions:**'' @ nl
             @ concat (map (\<lambda>p. str_of_nat (fst p) @ ''. '' @ defn_text (snd p)
                                @ '' _'' @ ''Unknown'' @ ''_'' @ nl)
                      (enumerate 1 (definitions ?D)))
             @ (if synonyms ?D \<noteq> []
                then nl @ ''**'' @ link_symbol @ '' Synonyms:**'' @ nl
                     @ join '', '' (sort (synonyms ?D)) @ nl
                else [])
             @ (if antonyms ?D \<noteq> []
                then nl @ ''**'' @ cross_mark @ '' Antonyms:**'' @ nl
                     @ join '', '' (sort (antonyms ?D)) @ nl
                else [])
             @ (if examples ?D \<noteq> []
                then nl @ ''**'' @ light_bulb @ '' Examples:**'' @ nl
                     @ concat (map (\<lambda>ex. ''- _'' @ ex @ ''_'' @ nl) (examples ?D))
                else [])"
    by (rule conjunct2 [THEN conjunct2])
  also have "\<dots> =
            ''**Glee**'' @ nl @ nl @ ''**'' @ open_book @ '' Definitions:**'' @ nl
            @ ''1. a feeling of great happiness _Unknown_'' @ nl
            @ ''2.  _Unknown_'' @ nl
            @ ''3. to make glad _Unknown_'' @ nl
            @ nl @ ''**'' @ link_symbol @ '' Synonyms:**'' @ nl
            @ ''gladden, glee, joy'' @ nl
            @ nl @ ''**'' @ cross_mark @ '' Antonyms:**'' @ nl
            @ ''gloom'' @ nl
            @ nl @ ''**'' @ light_bulb @ '' Examples:**'' @ nl
            @ ''- _first_'' @ nl @ ''- _second_'' @ nl @ ''- _fourth_'' @ nl"
    by code_simp
  finally have out: "format_output ?D =
            ''**Glee**'' @ nl @ nl @ ''**'' @ open_book @ '' Definitions:**'' @ nl
            @ ''1. a feeling of great happiness _Unknown_'' @ nl
            @ ''2.  _Unknown_'' @ nl
            @ ''3. to make glad _Unknown_'' @ nl
            @ nl @ ''**'' @ link_symbol @ '' Synonyms:**'' @ nl
            @ ''gladden, glee, joy'' @ nl
            @ nl @ ''**'' @ cross_mark @ '' Antonyms:**'' @ nl
            @ ''gloom'' @ nl
            @ nl @ ''**'' @ light_bulb @ '' Examples:**'' @ nl
            @ ''- _first_'' @ nl @ ''- _second_'' @ nl @ ''- _fourth_'' @ nl" .
  have tags: "pos_tags ?D = [''noun'', ''verb'']" and len: "length (definitions ?D) = 3"
    by simp_all
  from all out tags len show ?thesis by (simp only: d option.case)
qed

section \<open>The loop of the console program\<close>

text \<open>
  C8: one iteration of the loop of \<open>main\<close>. A line that, stripped and lowercased, is
  \<open>quit\<close>, \<open>exit\<close> or \<open>q\<close> ends the program with exit code 0 after \<open>Goodbye!\<close>. A
  line that is empty when stripped prints \<open>Please enter a word.\<close> and the loop goes on
  to the next prompt, nothing being looked up. Any other line is looked up in WordNet
  and the result is printed before the loop goes on: when WordNet has no synset for
  the normalized word, the line \<open>Error: No definitions found\<close> with the word; otherwise
  the rule, the capitalized word, the number of definitions, the gloss of every synset
  numbered from 1, and the sorted synonyms (the names, with spaces for underscores, of
  the lemmas whose name differs from the word) or \<open>No synonyms found.\<close>. Ctrl-C at the
  prompt ends the program with exit code 0 after the farewell.
\<close>

theorem console_loop_commands:
  "(lower (strip s) \<in> set [''quit'', ''exit'', ''q''] \<longrightarrow>
      main_loop (Suc n) W (Line s # evs) out = Some (0, out @ [prompt, ''Goodbye!'']))
   \<and> (strip s = [] \<longrightarrow>
      main_loop (Suc n) W (Line s # evs) out =
        main_loop n W evs (out @ [prompt, ''Please enter a word.'' @ nl]))
   \<and> (strip s \<noteq> [] \<and> lower (strip s) \<notin> set [''quit'', ''exit'', ''q'']
        \<and> wordnet_synsets W (normalize (strip s)) = [] \<longrightarrow>
      main_loop (Suc n) W (Line s # evs) out =
        main_loop n W evs
          (out @ [prompt,
                  ''Error: No definitions found for '' @ apostrophe @ normalize (strip s)
                    @ apostrophe]))
   \<and> (strip s \<noteq> [] \<and> lower (strip s) \<notin> set [''quit'', ''exit'', ''q'']
        \<and> wordnet_synsets W (normalize (strip s)) \<noteq> [] \<longrightarrow>
      main_loop (Suc n) W (Line s # evs) out =
        main_loop n W evs
          (out @ [prompt, nl @ rule_line, ''Word: '' @ capitalize (normalize (strip s)),
                  rule_line,
                  nl @ ''Definitions (''
                    @ str_of_nat (length (wordnet_synsets W (normalize (strip s)))) @ ''):'']
               @ map (\<lambda>p. ''  '' @ str_of_nat (fst p) @ ''. '' @ synset_definition (snd p))
                   (enumerate 1 (wordnet_synsets W (normalize (strip s))))
               @ (if fold (\<lambda>l acc. if lemma_name l \<noteq> normalize (strip s)
                                     then set_add (replace_underscore (lemma_name l)) acc
                                     else acc)
                       (lemmas_of (wordnet_synsets W (normalize (strip s)))) [] \<noteq> []
                  then [nl @ ''Synonyms:'']
                       @ map (\<lambda>syn. ''  - '' @ syn)
                           (sort (fold (\<lambda>l acc. if lemma_name l \<noteq> normalize (strip s)
                                     then set_add (replace_underscore (lemma_name l)) acc
                                     else acc)
                                   (lemmas_of (wordnet_synsets W (normalize (strip s)))) []))
                  else [nl @ ''No synonyms found.''])
               @ [[]]))
   \<and> main_loop (Suc n) W (KeyboardInterrupt # evs) out =
        Some (0, out @ [prompt, nl @ nl @ ''Goodbye!''])"
proof -
  have quit: "lower (strip s) \<in> set [''quit'', ''exit'', ''q''] \<Longrightarrow>
      main_loop (Suc n) W (Line s # evs) out = Some (0, out @ [prompt, ''Goodbye!''])"
    by (simp add: Let_def)
  have "lower [] \<notin> set [''quit'', ''exit'', ''q'']" by (simp add: lower_def)
  then have empty: "strip s = [] \<Longrightarrow>
      main_loop (Suc n) W (Line s # evs) out =
        main_loop n W evs (out @ [prompt, ''Please enter a word.'' @ nl])"
    by (simp add: Let_def)
  have other: "main_loop (Suc n) W (Line s # evs) out =
        main_loop n W evs (out @ [prompt] @ fst (get_definitions_and_synonyms W (strip s)))"
    if "strip s \<noteq> []" "lower (strip s) \<notin> set [''quit'', ''exit'', ''q'']"
    using that by (simp add: Let_def)
  have missing: "main_loop (Suc n) W (Line s # evs) out =
        main_loop n W evs
          (out @ [prompt,
                  ''Error: No definitions found for '' @ apostrophe @ normalize (strip s)
                    @ apostrophe])"
    if "strip s \<noteq> []" "lower (strip s) \<notin> set [''quit'', ''exit'', ''q'']"
      "wordnet_synsets W (normalize (strip s)) = []"
    by (simp only: other [OF that(1,2)] console_output_missing [OF that(3)] fst_conv
        append.simps)
  have found: "main_loop (Suc n) W (Line s # evs) out =
        main_loop n W evs
          (out @ [prompt, nl @ rule_line, ''Word: '' @ capitalize (normalize (strip s)),
                  rule_line,
                  nl @ ''Definitions (''
                    @ str_of_nat (length (wordnet_synsets W (normalize (strip s)))) @ ''):'']
               @ map (\<lambda>p. ''  '' @ str_of_nat (fst p) @ ''. '' @ synset_definition (snd p))
                   (enumerate 1 (wordnet_synsets W (normalize (strip s))))
               @ (if fold (\<lambda>l acc. if lemma_name l \<noteq> normalize (strip s)
                                     then set_add (replace_underscore (lemma_name l)) acc
                                     else acc)
                       (lemmas_of (wordnet_synsets W (normalize (strip s)))) [] \<noteq> []
                  then [nl @ ''Synonyms:'']
                       @ map (\<lambda>syn. ''  - '' @ syn)
                           (sort (fold (\<lambda>l acc. if lemma_name l \<noteq> normalize (strip s)
                                     then set_add (replace_underscore (lemma_name l)) acc
                                     else acc)
                                   (lemmas_of (wordnet_synsets W (normalize (strip s)))) []))
                  else [nl @ ''No synonyms found.''])
               @ [[]])"
    if "strip s \<noteq> []" "lower (strip s) \<notin> set [''quit'', ''exit'', ''q'']"
      "wordnet_synsets W (normalize (strip s)) \<noteq> []"
    by (simp only: other [OF that(1,2)] console_output_found [OF that(3)] fst_conv
        cli_synonyms_eq append.simps append_assoc)
  have intr: "main_loop (Suc n) W (KeyboardInterrupt # evs) out =
        Some (0, out @ [prompt, nl @ nl @ ''Goodbye!''])"
    by simp
  from quit empty missing found intr show ?thesis by blast
qed


text \<open>
  A whole run: when the input holds an exit command or a Ctrl-C, the loop ends with exit
  code 0 within as many iterations as there are inputs.
\<close>

lemma main_loop_exits:
  assumes "KeyboardInterrupt \<in> set evs
           \<or> (\<exists>s. Line s \<in> set evs \<and> lower (strip s) \<in> set [''quit'', ''exit'', ''q''])"
    and "length evs \<le> n"
  shows "\<exists>out'. main_loop n W evs out = Some (0, out')"
  using assms
proof (induction evs arbitrary: n out)
  case Nil
  then show ?case by simp
next
  case (Cons e evs)
  from Cons.prems(2) obtain m where n: "n = Suc m" and m: "length evs \<le> m"
    by (cases n) simp_all
  show ?case
  proof (cases e)
    case KeyboardInterrupt
    then show ?thesis by (simp add: n)
  next
    case (Line s)
    show ?thesis
    proof (cases "lower (strip s) \<in> set [''quit'', ''exit'', ''q'']")
      case True
      with Line show ?thesis by (simp add: n Let_def)
    next
      case False
      with Cons.prems(1) Line
      have rest: "KeyboardInterrupt \<in> set evs
           \<or> (\<exists>s. Line s \<in> set evs \<and> lower (strip s) \<in> set [''quit'', ''exit'', ''q''])"
        by auto
      from Cons.IH [OF rest m] False Line show ?thesis by (simp add: n Let_def)
    qed
  qed
qed

theorem console_loop_commands_witness:
  "main_loop 4 offline_world
     [Line ''  '', Line ''glee'', Line ''Happy'', Line '' QUIT '', Line ''happy''] []
     = Some (0, [prompt, ''Please enter a word.'' @ nl,
                 prompt, ''Error: No definitions found for '' @ apostrophe @ ''glee'' @ apostrophe,
                 prompt, nl @ rule_line, ''Word: Happy'', rule_line, nl @ ''Definitions (4):'',
                 ''  1. enjoying or showing or marked by joy or pleasure'',
                 ''  2. marked by good fortune'',
                 ''  3. eagerly disposed to act or to be of service'',
                 ''  4. well expressed and to the point'',
                 nl @ ''Synonyms:'', ''  - felicitous'', ''  - glad'', ''  - well chosen'', [],
                 prompt, ''Goodbye!''])
   \<and> main_loop 1 offline_world [KeyboardInterrupt] []
     = Some (0, [prompt, nl @ nl @ ''Goodbye!''])"
proof -
  let ?W = offline_world
  let ?l4 = "[Line '' QUIT '', Line ''happy'']"
  let ?l3 = "Line ''Happy'' # ?l4"
  let ?l2 = "Line ''glee'' # ?l3"
  let ?o1 = "[prompt, ''Please enter a word.'' @ nl]"
  let ?o2 = "?o1 @ [prompt, ''Error: No definitions found for '' @ apostrophe
                      @ normalize (strip ''glee'') @ apostrophe]"
  let ?w = "normalize (strip ''Happy'')"
  let ?syn = "fold (\<lambda>l acc. if lemma_name l \<noteq> ?w
                             then set_add (replace_underscore (lemma_name l)) acc else acc)
                (lemmas_of (wordnet_synsets ?W ?w)) []"
  let ?found = "[prompt, nl @ rule_line, ''Word: '' @ capitalize ?w, rule_line,
                  nl @ ''Definitions ('' @ str_of_nat (length (wordnet_synsets ?W ?w)) @ ''):'']
               @ map (\<lambda>p. ''  '' @ str_of_nat (fst p) @ ''. '' @ synset_definition (snd p))
                   (enumerate 1 (wordnet_synsets ?W ?w))
               @ (if ?syn \<noteq> []
                  then [nl @ ''Synonyms:''] @ map (\<lambda>syn. ''  - '' @ syn) (sort ?syn)
                  else [nl @ ''No synonyms found.''])
               @ [[]]"
  let ?o3 = "?o2 @ ?found"
  have e1: "strip ''  '' = []" by code_simp
  have e2: "strip ''glee'' \<noteq> [] \<and> lower (strip ''glee'') \<notin> set [''quit'', ''exit'', ''q'']
            \<and> wordnet_synsets ?W (normalize (strip ''glee'')) = []"
    by code_simp
  have e3: "strip ''Happy'' \<noteq> [] \<and> lower (strip ''Happy'') \<notin> set [''quit'', ''exit'', ''q'']
            \<and> wordnet_synsets ?W ?w \<noteq> []"
    by code_simp
  have e4: "lower (strip '' QUIT '') \<in> set [''quit'', ''exit'', ''q'']" by code_simp
  from console_loop_commands [of "''  ''" 3 ?W ?l2 "[]"] e1
  have s1: "main_loop (Suc 3) ?W (Line ''  '' # ?l2) [] = main_loop 3 ?W ?l2 ([] @ ?o1)"
    by blast
  from console_loop_commands [of "''glee''" 2 ?W ?l3 "?o1"] e2
  have s2: "main_loop (Suc 2) ?W ?l2 ?o1 = main_loop 2 ?W ?l3 ?o2"
    by blast
  from console_loop_commands [of "''Happy''" 1 ?W ?l4 "?o2"] e3
  have s3: "main_loop (Suc 1) ?W ?l3 ?o2 = main_loop 1 ?W ?l4 ?o3"
    by blast
  from console_loop_commands [of "'' QUIT ''" 0 ?W "[Line ''happy'']" "?o3"] e4
  have s4: "main_loop (Suc 0) ?W ?l4 ?o3 = Some (0, ?o3 @ [prompt, ''Goodbye!''])"
    by blast
  from console_loop_commands [of "[]" 0 ?W "[]" "[]"]
  have s5: "main_loop (Suc 0) ?W [KeyboardInterrupt] []
            = Some (0, [] @ [prompt, nl @ nl @ ''Goodbye!''])"
    by blast
  have n4: "(4::nat) = Suc 3" and n3: "(3::nat) = Suc 2" and n2: "(2::nat) = Suc 1"
    and n1: "(1::nat) = Suc 0"
    by simp_all
  have run: "main_loop 4 ?W (Line ''  '' # ?l2) [] = Some (0, ?o3 @ [prompt, ''Goodbye!''])"
  proof -
    have "main_loop 4 ?W (Line ''  '' # ?l2) [] = main_loop 3 ?W ?l2 ?o1"
      using s1 by (simp only: n4 [symmetric] append_Nil)
    also have "\<dots> = main_loop 2 ?W ?l3 ?o2" using s2 by (simp only: n3 [symmetric])
    also have "\<dots> = main_loop 1 ?W ?l4 ?o3" using s3 by (simp only: n2 [symmetric])
    also have "\<dots> = Some (0, ?o3 @ [prompt, ''Goodbye!''])"
      using s4 by (simp only: n1 [symmetric])
    finally show ?thesis .
  qed
  have out: "?o3 @ [prompt, ''Goodbye!''] =
     [prompt, ''Please enter a word.'' @ nl,
      prompt, ''Error: No definitions found for '' @ apostrophe @ ''glee'' @ apostrophe,
      prompt, nl @ rule_line, ''Word: Happy'', rule_line, nl @ ''Definitions (4):'',
      ''  1. enjoying or showing or marked by joy or pleasure'',
      ''  2. marked by good fortune'',
      ''  3. eagerly disposed to act or to be of service'',
      ''  4. well expressed and to the point'',
      nl @ ''Synonyms:'', ''  - felicitous'', ''  - glad'', ''  - well chosen'', [],
      prompt, ''Goodbye!'']"
    by code_simp
  have intr: "main_loop 1 ?W [KeyboardInterrupt] [] = Some (0, [prompt, nl @ nl @ ''Goodbye!''])"
    using s5 by (simp only: n1 [symmetric] append_Nil)
  from run out intr show ?thesis by (simp only:)
qed

section \<open>The two front ends compared\<close>

lemma local_definition_lines:
  "definition_lines
     (map (\<lambda>ss. \<lparr>defn_text = synset_definition ss, defn_pos = synset_pos ss\<rparr>) synsets) =
   concat (map (\<lambda>p. str_of_nat (fst p) @ ''. '' @ synset_definition (snd p) @ '' _''
                      @ pos_to_name (synset_pos (snd p)) @ ''_'' @ nl)
            (enumerate 1 synsets))"
  by (simp add: definition_lines_def map_enumerate_map definition_line_def)

text \<open>
  C4, as the claim states it, fails. For a word WordNet does not have, the page returns
  the record of the API while the console reports that nothing was found. For
  \<open>ice_cream\<close> the page lists \<open>ice cream\<close> and \<open>icecream\<close> as synonyms, the console only
  \<open>icecream\<close>. The page writes the word with \<open>title\<close>, the console with \<open>capitalize\<close>.
\<close>

theorem front_ends_differ_counterexample:
  "map_option from_api (get_word_data online_world ''glee'') = Some True
   \<and> snd (get_definitions_and_synonyms online_world ''glee'') = False
   \<and> map_option synonyms (get_word_data offline_world ''ice_cream'')
       = Some [''ice cream'', ''icecream'']
   \<and> snd (cli_collect ''ice_cream'' (wordnet_synsets offline_world ''ice_cream''))
       = [''icecream'']
   \<and> title ''ice_cream'' = ''Ice_Cream'' \<and> capitalize ''ice_cream'' = ''Ice_cream''"
  by code_simp

text \<open>
  C4, amended: for a non-empty normalized word with local entries both front ends find
  the word and have the same definition texts in the same order, and the same synonyms
  in the same order when the word has neither an underscore nor a space. The console
  prints the rule, the word with \<open>capitalize\<close>, the number of definitions, every gloss
  numbered from 1, and the sorted synonyms one on a line (or \<open>No synonyms found.\<close>);
  \<open>format_output\<close> writes the word with \<open>title\<close>, every gloss numbered from 1 followed
  by the name of its part of speech, and, where there are any, the sorted synonyms and
  antonyms joined by commas and the examples. Without local entries the console prints
  only the line \<open>Error: No definitions found\<close> and returns \<open>False\<close>, while the page
  returns whatever the fallback returns.
\<close>

theorem front_ends_agree_on_local_definitions:
  assumes "normalize raw \<noteq> []"
  shows "(wordnet_synsets W (normalize raw) \<noteq> [] \<longrightarrow>
           (\<exists>d. get_word_data W raw = Some d
              \<and> snd (get_definitions_and_synonyms W raw) = True
              \<and> map defn_text (definitions d)
                  = fst (cli_collect (normalize raw) (wordnet_synsets W (normalize raw)))
              \<and> (CHR ''_'' \<notin> set (normalize raw) \<and> CHR '' '' \<notin> set (normalize raw) \<longrightarrow>
                   synonyms d
                   = snd (cli_collect (normalize raw) (wordnet_synsets W (normalize raw))))
              \<and> fst (get_definitions_and_synonyms W raw) =
                  [nl @ rule_line, ''Word: '' @ capitalize (normalize raw), rule_line,
                   nl @ ''Definitions (''
                     @ str_of_nat (length (wordnet_synsets W (normalize raw))) @ ''):'']
                  @ map (\<lambda>p. ''  '' @ str_of_nat (fst p) @ ''. '' @ synset_definition (snd p))
                      (enumerate 1 (wordnet_synsets W (normalize raw)))
                  @ (if snd (cli_collect (normalize raw) (wordnet_synsets W (normalize raw)))
                        \<noteq> []
                     then [nl @ ''Synonyms:'']
                          @ map (\<lambda>syn. ''  - '' @ syn)
                              (sort (snd (cli_collect (normalize raw)
                                            (wordnet_synsets W (normalize raw)))))
                     else [nl @ ''No synonyms found.''])
                  @ [[]]
              \<and> format_output d =
                  ''**'' @ title (normalize raw) @ ''**''
                  @ nl @ nl @ ''**'' @ open_book @ '' Definitions:**'' @ nl
                  @ concat (map (\<lambda>p. str_of_nat (fst p) @ ''. '' @ synset_definition (snd p)
                                     @ '' _'' @ pos_to_name (synset_pos (snd p)) @ ''_'' @ nl)
                             (enumerate 1 (wordnet_synsets W (normalize raw))))
                  @ (if synonyms d \<noteq> []
                     then nl @ ''**'' @ link_symbol @ '' Synonyms:**'' @ nl
                          @ join '', '' (sort (synonyms d)) @ nl
                     else [])
                  @ (if antonyms d \<noteq> []
                     then nl @ ''**'' @ cross_mark @ '' Antonyms:**'' @ nl
                          @ join '', '' (sort (antonyms d)) @ nl
                     else [])
                  @ (if examples d \<noteq> []
                     then nl @ ''**'' @ light_bulb @ '' Examples:**'' @ nl
                          @ concat (map (\<lambda>ex. ''- _'' @ ex @ ''_'' @ nl) (examples d))
                     else [])))
         \<and> (wordnet_synsets W (normalize raw) = [] \<longrightarrow>
              get_definitions_and_synonyms W raw =
                ([''Error: No definitions found for '' @ apostrophe @ normalize raw
                   @ apostrophe], False)
              \<and> get_word_data W raw = get_word_from_api W (normalize raw))"
proof -
  let ?w = "normalize raw"
  let ?ss = "wordnet_synsets W ?w"
  let ?console = "[nl @ rule_line, ''Word: '' @ capitalize ?w, rule_line,
                   nl @ ''Definitions ('' @ str_of_nat (length ?ss) @ ''):'']
                  @ map (\<lambda>p. ''  '' @ str_of_nat (fst p) @ ''. '' @ synset_definition (snd p))
                      (enumerate 1 ?ss)
                  @ (if snd (cli_collect ?w ?ss) \<noteq> []
                     then [nl @ ''Synonyms:'']
                          @ map (\<lambda>syn. ''  - '' @ syn) (sort (snd (cli_collect ?w ?ss)))
                     else [nl @ ''No synonyms found.''])
                  @ [[]]"
  have local: "\<exists>d. get_word_data W raw = Some d
              \<and> snd (get_definitions_and_synonyms W raw) = True
              \<and> map defn_text (definitions d) = fst (cli_collect ?w ?ss)
              \<and> (CHR ''_'' \<notin> set ?w \<and> CHR '' '' \<notin> set ?w \<longrightarrow>
                   synonyms d = snd (cli_collect ?w ?ss))
              \<and> fst (get_definitions_and_synonyms W raw) = ?console
              \<and> format_output d =
                  ''**'' @ title ?w @ ''**''
                  @ nl @ nl @ ''**'' @ open_book @ '' Definitions:**'' @ nl
                  @ concat (map (\<lambda>p. str_of_nat (fst p) @ ''. '' @ synset_definition (snd p)
                                     @ '' _'' @ pos_to_name (synset_pos (snd p)) @ ''_'' @ nl)
                             (enumerate 1 ?ss))
                  @ (if synonyms d \<noteq> []
                     then nl @ ''**'' @ link_symbol @ '' Synonyms:**'' @ nl
                          @ join '', '' (sort (synonyms d)) @ nl
                     else [])
                  @ (if antonyms d \<noteq> []
                     then nl @ ''**'' @ cross_mark @ '' Antonyms:**'' @ nl
                          @ join '', '' (sort (antonyms d)) @ nl
                     else [])
                  @ (if examples d \<noteq> []
                     then nl @ ''**'' @ light_bulb @ '' Examples:**'' @ nl
                          @ concat (map (\<lambda>ex. ''- _'' @ ex @ ''_'' @ nl) (examples d))
                     else [])"
    if ne: "?ss \<noteq> []"
  proof -
    from get_word_data_local [OF assms ne] obtain d where
      d: "get_word_data W raw = Some d"
      and wd: "word d = ?w"
      and defs: "definitions d =
          map (\<lambda>ss. \<lparr>defn_text = synset_definition ss, defn_pos = synset_pos ss\<rparr>) ?ss"
      and syn: "synonyms d =
               fold (\<lambda>l s. if replace_underscore (lemma_name l) \<noteq> ?w
                           then set_add (replace_underscore (lemma_name l)) s else s)
                 (lemmas_of ?ss) []"
      by blast
    have t: "map defn_text (definitions d) = fst (cli_collect ?w ?ss)"
      by (simp add: defs cli_collect_eq(1) comp_def)
    have s: "synonyms d = snd (cli_collect ?w ?ss)"
      if "CHR ''_'' \<notin> set ?w" "CHR '' '' \<notin> set ?w"
      by (simp only: syn cli_collect_eq(2) fold_cli_lemma_eq_page_filter [OF that])
    have r: "snd (get_definitions_and_synonyms W raw) = True"
      and c: "fst (get_definitions_and_synonyms W raw) = ?console"
      by (simp_all only: console_output_found [OF ne] fst_conv snd_conv)
    have f: "format_output d =
                  ''**'' @ title ?w @ ''**''
                  @ nl @ nl @ ''**'' @ open_book @ '' Definitions:**'' @ nl
                  @ concat (map (\<lambda>p. str_of_nat (fst p) @ ''. '' @ synset_definition (snd p)
                                     @ '' _'' @ pos_to_name (synset_pos (snd p)) @ ''_'' @ nl)
                             (enumerate 1 ?ss))
                  @ (if synonyms d \<noteq> []
                     then nl @ ''**'' @ link_symbol @ '' Synonyms:**'' @ nl
                          @ join '', '' (sort (synonyms d)) @ nl
                     else [])
                  @ (if antonyms d \<noteq> []
                     then nl @ ''**'' @ cross_mark @ '' Antonyms:**'' @ nl
                          @ join '', '' (sort (antonyms d)) @ nl
                     else [])
                  @ (if examples d \<noteq> []
                     then nl @ ''**'' @ light_bulb @ '' Examples:**'' @ nl
                          @ concat (map (\<lambda>ex. ''- _'' @ ex @ ''_'' @ nl) (examples d))
                     else [])"
      unfolding format_output_def wd
      by (simp only: defs local_definition_lines)
    from d r t s c f show ?thesis by blast
  qed
  have remote: "get_definitions_and_synonyms W raw =
                ([''Error: No definitions found for '' @ apostrophe @ ?w @ apostrophe], False)
              \<and> get_word_data W raw = get_word_from_api W ?w"
    if "?ss = []"
    using that assms by (simp add: console_output_missing get_word_data_def Let_def)
  from local remote show ?thesis by blast
qed


theorem front_ends_agree_on_local_definitions_witness:
  "normalize '' Happy '' = ''happy''
   \<and> (case get_word_data offline_world '' Happy '' of
         None \<Rightarrow> False
       | Some d \<Rightarrow> map defn_text (definitions d)
                     = fst (cli_collect ''happy'' (wordnet_synsets offline_world ''happy''))
                   \<and> synonyms d
                     = snd (cli_collect ''happy'' (wordnet_synsets offline_world ''happy''))
                   \<and> format_output d =
                       ''**Happy**'' @ nl @ nl @ ''**'' @ open_book @ '' Definitions:**'' @ nl
                       @ ''1. enjoying or showing or marked by joy or pleasure _Adjective_'' @ nl
                       @ ''2. marked by good fortune _Adjective Satellite_'' @ nl
                       @ ''3. eagerly disposed to act or to be of service _Adjective Satellite_''
                       @ nl
                       @ ''4. well expressed and to the point _Adjective Satellite_'' @ nl
                       @ nl @ ''**'' @ link_symbol @ '' Synonyms:**'' @ nl
                       @ ''felicitous, glad, well chosen'' @ nl
                       @ nl @ ''**'' @ cross_mark @ '' Antonyms:**'' @ nl
                       @ ''unhappy'' @ nl
                       @ nl @ ''**'' @ light_bulb @ '' Examples:**'' @ nl
                       @ ''- _a happy smile_'' @ nl
                       @ ''- _spent many happy days on the beach_'' @ nl
                       @ ''- _a happy marriage_'' @ nl)
   \<and> fst (get_definitions_and_synonyms offline_world '' Happy '') =
       [nl @ rule_line, ''Word: Happy'', rule_line, nl @ ''Definitions (4):'',
        ''  1. enjoying or showing or marked by joy or pleasure'',
        ''  2. marked by good fortune'',
        ''  3. eagerly disposed to act or to be of service'',
        ''  4. well expressed and to the point'',
        nl @ ''Synonyms:'', ''  - felicitous'', ''  - glad'', ''  - well chosen'', []]
   \<and> get_definitions_and_synonyms offline_world ''glee'' =
       ([''Error: No definitions found for '' @ apostrophe @ ''glee'' @ apostrophe], False)
   \<and> get_word_data offline_world ''glee'' = get_word_from_api offline_world ''glee''"
proof -
  let ?W = offline_world
  let ?w = "normalize '' Happy ''"
  let ?ss = "wordnet_synsets ?W ?w"
  let ?D = "\<lparr>word = ''happy'',
     definitions =
       [\<lparr>defn_text = ''enjoying or showing or marked by joy or pleasure'', defn_pos = ''a''\<rparr>,
        \<lparr>defn_text = ''marked by good fortune'', defn_pos = ''s''\<rparr>,
        \<lparr>defn_text = ''eagerly disposed to act or to be of service'', defn_pos = ''s''\<rparr>,
        \<lparr>defn_text = ''well expressed and to the point'', defn_pos = ''s''\<rparr>],
     synonyms = [''felicitous'', ''glad'', ''well chosen''],
     antonyms = [''unhappy''],
     examples = [''a happy smile'', ''spent many happy days on the beach'', ''a happy marriage''],
     pos_tags = [''a'', ''s''], source = None\<rparr>"
  have n: "?w = ''happy''" and n2: "normalize ''glee'' = ''glee''"
    by code_simp+
  have h1: "?w \<noteq> []" and h1': "normalize ''glee'' \<noteq> []"
    by (simp_all add: n n2)
  have h2: "?ss \<noteq> []"
    by (simp add: n offline_world_def example_synsets_def)
  have h3: "CHR ''_'' \<notin> set ?w \<and> CHR '' '' \<notin> set ?w"
    by (simp add: n)
  have h4: "wordnet_synsets ?W (normalize ''glee'') = []"
    by (simp add: n2 offline_world_def example_synsets_def)
  have dv: "get_word_data ?W '' Happy '' = Some ?D" by code_simp
  from front_ends_agree_on_local_definitions [OF h1, of ?W] h2 h3
  obtain d where d: "get_word_data ?W '' Happy '' = Some d"
    and t: "map defn_text (definitions d) = fst (cli_collect ?w ?ss)"
    and s: "synonyms d = snd (cli_collect ?w ?ss)"
    and c: "fst (get_definitions_and_synonyms ?W '' Happy '') =
              [nl @ rule_line, ''Word: '' @ capitalize ?w, rule_line,
               nl @ ''Definitions ('' @ str_of_nat (length ?ss) @ ''):'']
              @ map (\<lambda>p. ''  '' @ str_of_nat (fst p) @ ''. '' @ synset_definition (snd p))
                  (enumerate 1 ?ss)
              @ (if snd (cli_collect ?w ?ss) \<noteq> []
                 then [nl @ ''Synonyms:'']
                      @ map (\<lambda>syn. ''  - '' @ syn) (sort (snd (cli_collect ?w ?ss)))
                 else [nl @ ''No synonyms found.''])
              @ [[]]"
    and f: "format_output d =
              ''**'' @ title ?w @ ''**''
              @ nl @ nl @ ''**'' @ open_book @ '' Definitions:**'' @ nl
              @ concat (map (\<lambda>p. str_of_nat (fst p) @ ''. '' @ synset_definition (snd p)
                                 @ '' _'' @ pos_to_name (synset_pos (snd p)) @ ''_'' @ nl)
                         (enumerate 1 ?ss))
              @ (if synonyms d \<noteq> []
                 then nl @ ''**'' @ link_symbol @ '' Synonyms:**'' @ nl
                      @ join '', '' (sort (synonyms d)) @ nl
                 else [])
              @ (if antonyms d \<noteq> []
                 then nl @ ''**'' @ cross_mark @ '' Antonyms:**'' @ nl
                      @ join '', '' (sort (antonyms d)) @ nl
                 else [])
              @ (if examples d \<noteq> []
                 then nl @ ''**'' @ light_bulb @ '' Examples:**'' @ nl
                      @ concat (map (\<lambda>ex. ''- _'' @ ex @ ''_'' @ nl) (examples d))
                 else [])"
    by blast
  from d dv have dD: "d = ?D" by simp
  have cv: "[nl @ rule_line, ''Word: '' @ capitalize ?w, rule_line,
               nl @ ''Definitions ('' @ str_of_nat (length ?ss) @ ''):'']
              @ map (\<lambda>p. ''  '' @ str_of_nat (fst p) @ ''. '' @ synset_definition (snd p))
                  (enumerate 1 ?ss)
              @ (if snd (cli_collect ?w ?ss) \<noteq> []
                 then [nl @ ''Synonyms:'']
                      @ map (\<lambda>syn. ''  - '' @ syn) (sort (snd (cli_collect ?w ?ss)))
                 else [nl @ ''No synonyms found.''])
              @ [[]]
            = [nl @ rule_line, ''Word: Happy'', rule_line, nl @ ''Definitions (4):'',
               ''  1. enjoying or showing or marked by joy or pleasure'',
               ''  2. marked by good fortune'',
               ''  3. eagerly disposed to act or to be of service'',
               ''  4. well expressed and to the point'',
               nl @ ''Synonyms:'', ''  - felicitous'', ''  - glad'', ''  - well chosen'', []]"
    by code_simp
  have fv: "''**'' @ title ?w @ ''**''
              @ nl @ nl @ ''**'' @ open_book @ '' Definitions:**'' @ nl
              @ concat (map (\<lambda>p. str_of_nat (fst p) @ ''. '' @ synset_definition (snd p)
                                 @ '' _'' @ pos_to_name (synset_pos (snd p)) @ ''_'' @ nl)
                         (enumerate 1 ?ss))
              @ (if synonyms ?D \<noteq> []
                 then nl @ ''**'' @ link_symbol @ '' Synonyms:**'' @ nl
                      @ join '', '' (sort (synonyms ?D)) @ nl
                 else [])
              @ (if antonyms ?D \<noteq> []
                 then nl @ ''**'' @ cross_mark @ '' Antonyms:**'' @ nl
                      @ join '', '' (sort (antonyms ?D)) @ nl
                 else [])
              @ (if examples ?D \<noteq> []
                 then nl @ ''**'' @ light_bulb @ '' Examples:**'' @ nl
                      @ concat (map (\<lambda>ex. ''- _'' @ ex @ ''_'' @ nl) (examples ?D))
                 else [])
            = ''**Happy**'' @ nl @ nl @ ''**'' @ open_book @ '' Definitions:**'' @ nl
              @ ''1. enjoying or showing or marked by joy or pleasure _Adjective_'' @ nl
              @ ''2. marked by good fortune _Adjective Satellite_'' @ nl
              @ ''3. eagerly disposed to act or to be of service _Adjective Satellite_''
              @ nl
              @ ''4. well expressed and to the point _Adjective Satellite_'' @ nl
              @ nl @ ''**'' @ link_symbol @ '' Synonyms:**'' @ nl
              @ ''felicitous, glad, well chosen'' @ nl
              @ nl @ ''**'' @ cross_mark @ '' Antonyms:**'' @ nl
              @ ''unhappy'' @ nl
              @ nl @ ''**'' @ light_bulb @ '' Examples:**'' @ nl
              @ ''- _a happy smile_'' @ nl
              @ ''- _spent many happy days on the beach_'' @ nl
              @ ''- _a happy marriage_'' @ nl"
    by code_simp
  from front_ends_agree_on_local_definitions [OF h1', of ?W] h4
  have miss: "get_definitions_and_synonyms ?W ''glee'' =
                ([''Error: No definitions found for '' @ apostrophe @ normalize ''glee''
                   @ apostrophe], False)
        \<and> get_word_data ?W ''glee'' = get_word_from_api ?W (normalize ''glee'')"
    by blast
  have c': "fst (get_definitions_and_synonyms ?W '' Happy '') =
       [nl @ rule_line, ''Word: Happy'', rule_line, nl @ ''Definitions (4):'',
        ''  1. enjoying or showing or marked by joy or pleasure'',
        ''  2. marked by good fortune'',
        ''  3. eagerly disposed to act or to be of service'',
        ''  4. well expressed and to the point'',
        nl @ ''Synonyms:'', ''  - felicitous'', ''  - glad'', ''  - well chosen'', []]"
    using c by (simp only: cv)
  have f': "format_output d =
              ''**Happy**'' @ nl @ nl @ ''**'' @ open_book @ '' Definitions:**'' @ nl
              @ ''1. enjoying or showing or marked by joy or pleasure _Adjective_'' @ nl
              @ ''2. marked by good fortune _Adjective Satellite_'' @ nl
              @ ''3. eagerly disposed to act or to be of service _Adjective Satellite_''
              @ nl
              @ ''4. well expressed and to the point _Adjective Satellite_'' @ nl
              @ nl @ ''**'' @ link_symbol @ '' Synonyms:**'' @ nl
              @ ''felicitous, glad, well chosen'' @ nl
              @ nl @ ''**'' @ cross_mark @ '' Antonyms:**'' @ nl
              @ ''unhappy'' @ nl
              @ nl @ ''**'' @ light_bulb @ '' Examples:**'' @ nl
              @ ''- _a happy smile_'' @ nl
              @ ''- _spent many happy days on the beach_'' @ nl
              @ ''- _a happy marriage_'' @ nl"
    using f unfolding dD by (simp only: fv)
  from d t s f' have page:
    "(case get_word_data ?W '' Happy '' of
         None \<Rightarrow> False
       | Some d \<Rightarrow> map defn_text (definitions d) = fst (cli_collect ?w ?ss)
                   \<and> synonyms d = snd (cli_collect ?w ?ss)
                   \<and> format_output d =
                       ''**Happy**'' @ nl @ nl @ ''**'' @ open_book @ '' Definitions:**'' @ nl
                       @ ''1. enjoying or showing or marked by joy or pleasure _Adjective_'' @ nl
                       @ ''2. marked by good fortune _Adjective Satellite_'' @ nl
                       @ ''3. eagerly disposed to act or to be of service _Adjective Satellite_''
                       @ nl
                       @ ''4. well expressed and to the point _Adjective Satellite_'' @ nl
                       @ nl @ ''**'' @ link_symbol @ '' Synonyms:**'' @ nl
                       @ ''felicitous, glad, well chosen'' @ nl
                       @ nl @ ''**'' @ cross_mark @ '' Antonyms:**'' @ nl
                       @ ''unhappy'' @ nl
                       @ nl @ ''**'' @ light_bulb @ '' Examples:**'' @ nl
                       @ ''- _a happy smile_'' @ nl
                       @ ''- _spent many happy days on the beach_'' @ nl
                       @ ''- _a happy marriage_'' @ nl)"
    by (simp only: option.case)
  from n page c' miss show ?thesis by (simp only: n n2)
qed

end
